theory Spec2Isabelle
  imports Main "HOL-Library.Multiset"
begin

section \<open>The store\<close>

text \<open>
  The application keeps its data in a relational store behind SQLAlchemy. A table is the
  list of its rows; a row is a record with the columns of the model class. Strings are the
  UTF-8 bytes of the Python strings, so \<^verbatim>\<open>s.encode("utf-8")\<close> is \<open>s\<close> itself. A
  \<^verbatim>\<open>datetime\<close> is the integer number of microseconds since the epoch, in UTC
  (the code reads every stored naive datetime as UTC).

  Columns that no modelled operation reads are left out: the password hash, full name and
  creation time of a user, and the surrogate key \<^verbatim>\<open>id\<close> of a vote (a fresh
  \<^verbatim>\<open>uuid4\<close>, read only by \<^verbatim>\<open>count(Vote.id)\<close>, which counts rows). Of an
  organization only the id is kept. The tables \<^verbatim>\<open>roles\<close>, \<^verbatim>\<open>user_roles\<close>
  and \<^verbatim>\<open>voters\<close> are left out: the voting and election services neither read nor
  write them (the per-election voter list is no longer consulted).
\<close>

type_synonym datetime = int

record User =
  User_id :: string
  User_email :: string
  User_emp_id :: "string option"
  User_is_active :: bool

record Election =
  Election_id :: string
  Election_organization_id :: string
  Election_title :: string
  Election_description :: "string option"
  Election_start_time :: datetime
  Election_end_time :: datetime
  Election_status :: string
  Election_created_by :: string
  Election_created_at :: datetime

record Candidate =
  Candidate_id :: string
  Candidate_election_id :: string
  Candidate_name :: string
  Candidate_description :: "string option"
  Candidate_created_at :: datetime

record Vote =
  Vote_election_id :: string
  Vote_candidate_id :: string
  Vote_hashed_voter_token :: string
  Vote_created_at :: datetime

record db =
  organizations :: "string list"
  users :: "User list"
  elections :: "Election list"
  candidates :: "Candidate list"
  votes :: "Vote list"

text \<open>
  What a call can raise: FastAPI's \<^verbatim>\<open>HTTPException(status_code, detail)\<close>, and
  SQLAlchemy's \<^verbatim>\<open>IntegrityError\<close>, raised by \<^verbatim>\<open>db.commit()\<close> when the store
  rejects a row. No function of the repository catches \<^verbatim>\<open>IntegrityError\<close>, and
  the application registers no exception handler, so FastAPI answers it with its generic
  500 response.
\<close>

datatype exn = HTTPException nat string | IntegrityError

fun http_status :: "exn \<Rightarrow> nat" where
  "http_status (HTTPException code detail) = code"
| "http_status IntegrityError = 500"

section \<open>core/security.py: the vote token\<close>

text \<open>
  The process-wide settings and the two digest functions of the Python standard library
  are parameters: \<open>hmac_sha256_hexdigest k m\<close> stands for
  \<^verbatim>\<open>hmac.new(k, m, hashlib.sha256).hexdigest()\<close> and \<open>sha256_hexdigest m\<close> for
  \<^verbatim>\<open>hashlib.sha256(m).hexdigest()\<close>.
\<close>

record env =
  HMAC_SECRET_KEY :: string
  hmac_sha256_hexdigest :: "string \<Rightarrow> string \<Rightarrow> string"
  sha256_hexdigest :: "string \<Rightarrow> string"

definition generate_vote_token :: "env \<Rightarrow> string \<Rightarrow> string \<Rightarrow> string" where
  "generate_vote_token env user_id election_id =
     (let message = user_id @ '':'' @ election_id
      in hmac_sha256_hexdigest env (HMAC_SECRET_KEY env) message)"

definition hash_vote_token :: "env \<Rightarrow> string \<Rightarrow> string" where
  "hash_vote_token env token = sha256_hexdigest env token"

section \<open>The repositories\<close>

text \<open>
  \<^verbatim>\<open>db.query(T).filter(p).first()\<close> is the first row of the table that satisfies
  \<open>p\<close>, or \<^verbatim>\<open>None\<close>.
\<close>

definition UserRepository_get_by_id :: "db \<Rightarrow> string \<Rightarrow> User option" where
  "UserRepository_get_by_id d user_id = find (\<lambda>u. User_id u = user_id) (users d)"

definition ElectionRepository_get_by_id :: "db \<Rightarrow> string \<Rightarrow> Election option" where
  "ElectionRepository_get_by_id d election_id =
     find (\<lambda>e. Election_id e = election_id) (elections d)"

definition CandidateRepository_get_by_id :: "db \<Rightarrow> string \<Rightarrow> Candidate option" where
  "CandidateRepository_get_by_id d candidate_id =
     find (\<lambda>c. Candidate_id c = candidate_id) (candidates d)"

definition CandidateRepository_get_by_election :: "db \<Rightarrow> string \<Rightarrow> Candidate list" where
  "CandidateRepository_get_by_election d election_id =
     filter (\<lambda>c. Candidate_election_id c = election_id) (candidates d)"

text \<open>
  The constraints of the table \<^verbatim>\<open>votes\<close> (models/vote.py), checked by the store
  when a row is inserted: the unique constraint \<^verbatim>\<open>uq_vote_election_token\<close> over
  (election_id, hashed_voter_token), and the two foreign keys (the connection sets
  \<^verbatim>\<open>PRAGMA foreign_keys=ON\<close>). A rejected insert commits nothing.
\<close>

definition uq_vote_election_token :: "db \<Rightarrow> Vote \<Rightarrow> bool" where
  "uq_vote_election_token d v =
     (\<not> (\<exists>w \<in> set (votes d). Vote_election_id w = Vote_election_id v
            \<and> Vote_hashed_voter_token w = Vote_hashed_voter_token v))"

definition votes_foreign_keys :: "db \<Rightarrow> Vote \<Rightarrow> bool" where
  "votes_foreign_keys d v =
     ((\<exists>e \<in> set (elections d). Election_id e = Vote_election_id v)
      \<and> (\<exists>c \<in> set (candidates d). Candidate_id c = Vote_candidate_id v))"

definition votes_insert :: "db \<Rightarrow> Vote \<Rightarrow> exn + db" where
  "votes_insert d v =
     (if uq_vote_election_token d v \<and> votes_foreign_keys d v
      then Inr (d\<lparr>votes := votes d @ [v]\<rparr>)
      else Inl IntegrityError)"

text \<open>
  \<^verbatim>\<open>VoteRepository.cast_vote\<close>: build the row, \<^verbatim>\<open>db.add\<close>, \<^verbatim>\<open>db.commit\<close>.
  \<open>stamp\<close> is the clock reading that the column default of \<^verbatim>\<open>created_at\<close> takes.
  The result is what the call returns or raises, and the store after it.
\<close>

definition VoteRepository_cast_vote ::
  "datetime \<Rightarrow> db \<Rightarrow> string \<Rightarrow> string \<Rightarrow> string \<Rightarrow> (exn + Vote) \<times> db" where
  "VoteRepository_cast_vote stamp d election_id candidate_id hashed_voter_token =
     (let vote = \<lparr>Vote_election_id = election_id, Vote_candidate_id = candidate_id,
                  Vote_hashed_voter_token = hashed_voter_token, Vote_created_at = stamp\<rparr>
      in case votes_insert d vote of
           Inl e \<Rightarrow> (Inl e, d)
         | Inr d' \<Rightarrow> (Inr vote, d'))"

definition VoteRepository_check_duplicate :: "db \<Rightarrow> string \<Rightarrow> string \<Rightarrow> bool" where
  "VoteRepository_check_duplicate d election_id hashed_voter_token =
     (let existing = find (\<lambda>v. Vote_election_id v = election_id
                               \<and> Vote_hashed_voter_token v = hashed_voter_token) (votes d)
      in existing \<noteq> None)"

definition VoteRepository_get_total_votes :: "db \<Rightarrow> string \<Rightarrow> nat" where
  "VoteRepository_get_total_votes d election_id =
     length (filter (\<lambda>v. Vote_election_id v = election_id) (votes d))"

section \<open>services/vote\_service.py: casting a vote\<close>

record VoteConfirmation =
  VoteConfirmation_message :: string
  VoteConfirmation_election_id :: string
  VoteConfirmation_voted_at :: datetime

text \<open>
  \<^verbatim>\<open>VoteService.cast_vote\<close>, statement by statement. Besides the arguments of the
  Python function the model takes what the call reads from its surroundings:
  \<open>env\<close> (settings and digests), \<open>now\<close> (the clock at the time-window check),
  \<open>stamp\<close> (the clock when the row is written) and \<open>others\<close>. Every query of a
  session sees what is committed when it runs, so sessions of other requests may commit
  between this call's duplicate pre-check and its insert: \<open>others\<close> is what they do to
  the store in that gap, and \<open>\<lambda>d. d\<close> for a call that runs alone.
\<close>

definition VoteService_cast_vote ::
  "env \<Rightarrow> datetime \<Rightarrow> datetime \<Rightarrow> (db \<Rightarrow> db) \<Rightarrow> db \<Rightarrow> string \<Rightarrow> string \<Rightarrow> string
     \<Rightarrow> (exn + VoteConfirmation) \<times> db" where
  "VoteService_cast_vote env now stamp others d user_id election_id candidate_id =
     (case ElectionRepository_get_by_id d election_id of
        None \<Rightarrow> (Inl (HTTPException 404 ''Election not found''), d)
      | Some election \<Rightarrow>
          if Election_status election \<noteq> ''active'' then
            (Inl (HTTPException 400 (''Election is not active (current status: ''
                                       @ Election_status election @ '')'')), d)
          else if now < Election_start_time election then
            (Inl (HTTPException 400 ''Election has not started yet''), d)
          else if now > Election_end_time election then
            (Inl (HTTPException 400 ''Election has ended''), d)
          else
            let candidate = CandidateRepository_get_by_id d candidate_id in
            if (case candidate of None \<Rightarrow> True
                | Some c \<Rightarrow> Candidate_election_id c \<noteq> election_id) then
              (Inl (HTTPException 400 ''Invalid candidate for this election''), d)
            else
              let user = UserRepository_get_by_id d user_id;
                  identifier =
                    (case user of
                       None \<Rightarrow> user_id
                     | Some u \<Rightarrow>
                         (case User_emp_id u of
                            None \<Rightarrow> user_id
                          | Some e \<Rightarrow> if e \<noteq> [] then e else user_id));
                  vote_token = generate_vote_token env identifier election_id;
                  hashed_token = hash_vote_token env vote_token
              in
              if VoteRepository_check_duplicate d election_id hashed_token then
                (Inl (HTTPException 409 ''You have already voted in this election''), d)
              else
                (case VoteRepository_cast_vote stamp (others d) election_id candidate_id
                        hashed_token of
                   (Inl e, d') \<Rightarrow> (Inl e, d')
                 | (Inr vote, d') \<Rightarrow>
                     (Inr \<lparr>VoteConfirmation_message = ''Vote cast successfully'',
                           VoteConfirmation_election_id = election_id,
                           VoteConfirmation_voted_at = Vote_created_at vote\<rparr>, d')))"

record VoteStatusResponse =
  VoteStatusResponse_election_id :: string
  VoteStatusResponse_has_voted :: bool

definition VoteService_check_vote_status :: "env \<Rightarrow> db \<Rightarrow> string \<Rightarrow> string \<Rightarrow> VoteStatusResponse" where
  "VoteService_check_vote_status env d user_id election_id =
     (let user = UserRepository_get_by_id d user_id;
          identifier =
            (case user of
               None \<Rightarrow> user_id
             | Some u \<Rightarrow>
                 (case User_emp_id u of
                    None \<Rightarrow> user_id
                  | Some e \<Rightarrow> if e \<noteq> [] then e else user_id));
          vote_token = generate_vote_token env identifier election_id;
          hashed_token = hash_vote_token env vote_token;
          voted = VoteRepository_check_duplicate d election_id hashed_token
      in \<lparr>VoteStatusResponse_election_id = election_id,
          VoteStatusResponse_has_voted = voted\<rparr>)"


section \<open>services/vote\_service.py: the results\<close>

text \<open>
  \<^verbatim>\<open>VoteRepository.get_results\<close> is one query: candidates left outer joined with
  votes on the candidate id, filtered by the candidate's election, grouped by candidate id
  and name, each group with \<^verbatim>\<open>count(Vote.id)\<close> (the joined rows that have a vote),
  ordered by that count, descending. A result row is (candidate id, name, count).
\<close>

type_synonym result_row = "string \<times> string \<times> nat"

text \<open>
  The rows of the left outer join for one candidate: one row for each vote of the
  candidate, or a single row with \<^verbatim>\<open>NULL\<close> in the vote's columns when it has none.
\<close>

definition join_rows :: "db \<Rightarrow> Candidate \<Rightarrow> (Candidate \<times> Vote option) list" where
  "join_rows d c =
     (case filter (\<lambda>v. Vote_candidate_id v = Candidate_id c) (votes d) of
        [] \<Rightarrow> [(c, None)]
      | vs \<Rightarrow> map (\<lambda>v. (c, Some v)) vs)"

definition outerjoin_votes :: "db \<Rightarrow> (Candidate \<times> Vote option) list" where
  "outerjoin_votes d = concat (map (join_rows d) (candidates d))"

definition result_groups :: "db \<Rightarrow> string \<Rightarrow> result_row list" where
  "result_groups d election_id =
     (let joined = filter (\<lambda>(c, v). Candidate_election_id c = election_id) (outerjoin_votes d);
          keys = remdups (map (\<lambda>(c, v). (Candidate_id c, Candidate_name c)) joined)
      in map (\<lambda>(i, n). (i, n, length (filter (\<lambda>(c, v). Candidate_id c = i
                                              \<and> Candidate_name c = n \<and> v \<noteq> None) joined)))
           keys)"

text \<open>
  \<^verbatim>\<open>ORDER BY count DESC\<close> has no second key, and SQL leaves the order of rows
  with equal keys to the store. So the query is a relation: the store may answer with any
  arrangement of the groups in which the counts descend.
\<close>

definition VoteRepository_get_results :: "db \<Rightarrow> string \<Rightarrow> result_row list \<Rightarrow> bool" where
  "VoteRepository_get_results d election_id results =
     (mset results = mset (result_groups d election_id)
      \<and> sorted_wrt (\<lambda>r s. snd (snd r) \<ge> snd (snd s)) results)"

record CandidateResult =
  CandidateResult_candidate_id :: string
  CandidateResult_candidate_name :: string
  CandidateResult_vote_count :: nat

record ElectionResults =
  ElectionResults_election_id :: string
  ElectionResults_title :: string
  ElectionResults_status :: string
  ElectionResults_total_votes :: nat
  ElectionResults_results :: "CandidateResult list"

text \<open>
  \<^verbatim>\<open>VoteService.get_results\<close>; \<open>results\<close> is the answer of the store to the
  query of \<^verbatim>\<open>VoteRepository.get_results\<close>.
\<close>

definition VoteService_get_results :: "db \<Rightarrow> string \<Rightarrow> result_row list \<Rightarrow> exn + ElectionResults" where
  "VoteService_get_results d election_id results =
     (case ElectionRepository_get_by_id d election_id of
        None \<Rightarrow> Inl (HTTPException 404 ''Election not found'')
      | Some election \<Rightarrow>
          if Election_status election \<noteq> ''closed'' then
            Inl (HTTPException 400 ''Results are only available after the election is closed'')
          else
            let total_votes = VoteRepository_get_total_votes d election_id
            in Inr \<lparr>ElectionResults_election_id = election_id,
                    ElectionResults_title = Election_title election,
                    ElectionResults_status = Election_status election,
                    ElectionResults_total_votes = total_votes,
                    ElectionResults_results =
                      map (\<lambda>r. \<lparr>CandidateResult_candidate_id = fst r,
                                 CandidateResult_candidate_name = fst (snd r),
                                 CandidateResult_vote_count = snd (snd r)\<rparr>) results\<rparr>)"

section \<open>services/election\_service.py: the life cycle of an election\<close>

text \<open>
  The tables \<^verbatim>\<open>elections\<close> and \<^verbatim>\<open>candidates\<close>: a primary key, and foreign
  keys that are checked on insert and cascade on delete (models/election.py). A new row
  takes its \<^verbatim>\<open>id\<close> from \<^verbatim>\<open>uuid4\<close> and its \<^verbatim>\<open>created_at\<close> from the
  clock; both are arguments here (\<open>new_id\<close>, \<open>stamp\<close>). An update or delete of an
  object of the session is a statement on the rows with its primary key.
\<close>

definition elections_insert :: "db \<Rightarrow> Election \<Rightarrow> exn + db" where
  "elections_insert d e =
     (if Election_id e \<notin> Election_id ` set (elections d)
         \<and> Election_organization_id e \<in> set (organizations d)
         \<and> Election_created_by e \<in> User_id ` set (users d)
      then Inr (d\<lparr>elections := elections d @ [e]\<rparr>)
      else Inl IntegrityError)"

definition candidates_insert :: "db \<Rightarrow> Candidate \<Rightarrow> exn + db" where
  "candidates_insert d c =
     (if Candidate_id c \<notin> Candidate_id ` set (candidates d)
         \<and> Candidate_election_id c \<in> Election_id ` set (elections d)
      then Inr (d\<lparr>candidates := candidates d @ [c]\<rparr>)
      else Inl IntegrityError)"

definition OrganizationRepository_get_by_id :: "db \<Rightarrow> string \<Rightarrow> string option" where
  "OrganizationRepository_get_by_id d org_id = find (\<lambda>i. i = org_id) (organizations d)"

definition ElectionRepository_create ::
  "string \<Rightarrow> datetime \<Rightarrow> db \<Rightarrow> string \<Rightarrow> string \<Rightarrow> string option \<Rightarrow> datetime \<Rightarrow> datetime
     \<Rightarrow> string \<Rightarrow> (exn + Election) \<times> db" where
  "ElectionRepository_create new_id stamp d organization_id title description start_time
       end_time created_by =
     (let election = \<lparr>Election_id = new_id, Election_organization_id = organization_id,
                      Election_title = title, Election_description = description,
                      Election_start_time = start_time, Election_end_time = end_time,
                      Election_status = ''draft'', Election_created_by = created_by,
                      Election_created_at = stamp\<rparr>
      in case elections_insert d election of
           Inl e \<Rightarrow> (Inl e, d)
         | Inr d' \<Rightarrow> (Inr election, d'))"

text \<open>
  \<^verbatim>\<open>ElectionRepository.update\<close> takes arbitrary keyword arguments and, for each one
  whose value is not \<^verbatim>\<open>None\<close> and whose name is an attribute of the row, sets that
  attribute. The keywords are the columns of the row, each with a value of the column's
  type or absent (\<^verbatim>\<open>None\<close> or not passed); the status and the primary key are
  among them. A keyword that names no attribute is skipped by the loop and has no effect.
\<close>

record kwargs =
  kw_id :: "string option"
  kw_organization_id :: "string option"
  kw_title :: "string option"
  kw_description :: "string option"
  kw_start_time :: "datetime option"
  kw_end_time :: "datetime option"
  kw_status :: "string option"
  kw_created_by :: "string option"
  kw_created_at :: "datetime option"

definition setattrs :: "kwargs \<Rightarrow> Election \<Rightarrow> Election" where
  "setattrs kw election =
     \<lparr>Election_id =
        (case kw_id kw of None \<Rightarrow> Election_id election | Some v \<Rightarrow> v),
      Election_organization_id =
        (case kw_organization_id kw of
           None \<Rightarrow> Election_organization_id election | Some v \<Rightarrow> v),
      Election_title =
        (case kw_title kw of None \<Rightarrow> Election_title election | Some v \<Rightarrow> v),
      Election_description =
        (case kw_description kw of
           None \<Rightarrow> Election_description election | Some v \<Rightarrow> Some v),
      Election_start_time =
        (case kw_start_time kw of None \<Rightarrow> Election_start_time election | Some v \<Rightarrow> v),
      Election_end_time =
        (case kw_end_time kw of None \<Rightarrow> Election_end_time election | Some v \<Rightarrow> v),
      Election_status =
        (case kw_status kw of None \<Rightarrow> Election_status election | Some v \<Rightarrow> v),
      Election_created_by =
        (case kw_created_by kw of None \<Rightarrow> Election_created_by election | Some v \<Rightarrow> v),
      Election_created_at =
        (case kw_created_at kw of None \<Rightarrow> Election_created_at election | Some v \<Rightarrow> v)\<rparr>"

text \<open>
  The \<^verbatim>\<open>UPDATE\<close> that \<^verbatim>\<open>db.commit()\<close> sends for a changed object: the rows
  with the primary key \<open>key\<close> take the changed columns. The store rejects it, and commits
  nothing, when a new primary key is already taken or the old one is still referred to by
  a candidate or a vote, or when a changed organization or creator does not exist.
\<close>

definition elections_modify :: "db \<Rightarrow> string \<Rightarrow> (Election \<Rightarrow> Election) \<Rightarrow> exn + db" where
  "elections_modify d key change =
     (if (\<forall>e \<in> set (filter (\<lambda>e. Election_id e = key) (elections d)).
            (Election_id (change e) = key
             \<or> (Election_id (change e)
                   \<notin> Election_id ` set (filter (\<lambda>e. Election_id e \<noteq> key) (elections d))
                 \<and> key \<notin> Candidate_election_id ` set (candidates d)
                 \<and> key \<notin> Vote_election_id ` set (votes d)))
            \<and> (Election_organization_id (change e) = Election_organization_id e
                 \<or> Election_organization_id (change e) \<in> set (organizations d))
            \<and> (Election_created_by (change e) = Election_created_by e
                 \<or> Election_created_by (change e) \<in> User_id ` set (users d)))
      then Inr (d\<lparr>elections := map (\<lambda>e. if Election_id e = key then change e else e)
                                   (elections d)\<rparr>)
      else Inl IntegrityError)"

definition ElectionRepository_update :: "db \<Rightarrow> Election \<Rightarrow> kwargs \<Rightarrow> (exn + Election) \<times> db" where
  "ElectionRepository_update d election kw =
     (case elections_modify d (Election_id election) (setattrs kw) of
        Inl e \<Rightarrow> (Inl e, d)
      | Inr d' \<Rightarrow> (Inr (setattrs kw election), d'))"

definition ElectionRepository_update_status :: "db \<Rightarrow> Election \<Rightarrow> string \<Rightarrow> Election \<times> db" where
  "ElectionRepository_update_status d election status =
     (election\<lparr>Election_status := status\<rparr>,
      d\<lparr>elections := map (\<lambda>e. if Election_id e = Election_id election
                                then e\<lparr>Election_status := status\<rparr> else e) (elections d)\<rparr>)"

definition ElectionRepository_delete :: "db \<Rightarrow> Election \<Rightarrow> db" where
  "ElectionRepository_delete d election =
     (let gone = filter (\<lambda>c. Candidate_election_id c = Election_id election) (candidates d)
      in d\<lparr>elections := filter (\<lambda>e. Election_id e \<noteq> Election_id election) (elections d),
           candidates := filter (\<lambda>c. Candidate_election_id c \<noteq> Election_id election)
                           (candidates d),
           votes := filter (\<lambda>v. Vote_election_id v \<noteq> Election_id election
                                \<and> Vote_candidate_id v \<notin> Candidate_id ` set gone) (votes d)\<rparr>)"

definition CandidateRepository_create ::
  "string \<Rightarrow> datetime \<Rightarrow> db \<Rightarrow> string \<Rightarrow> string \<Rightarrow> string option \<Rightarrow> (exn + Candidate) \<times> db" where
  "CandidateRepository_create new_id stamp d election_id name description =
     (let candidate = \<lparr>Candidate_id = new_id, Candidate_election_id = election_id,
                       Candidate_name = name, Candidate_description = description,
                       Candidate_created_at = stamp\<rparr>
      in case candidates_insert d candidate of
           Inl e \<Rightarrow> (Inl e, d)
         | Inr d' \<Rightarrow> (Inr candidate, d'))"

definition CandidateRepository_delete :: "db \<Rightarrow> Candidate \<Rightarrow> db" where
  "CandidateRepository_delete d candidate =
     d\<lparr>candidates := filter (\<lambda>c. Candidate_id c \<noteq> Candidate_id candidate) (candidates d),
       votes := filter (\<lambda>v. Vote_candidate_id v \<noteq> Candidate_id candidate) (votes d)\<rparr>"

definition ElectionService_create_election ::
  "string \<Rightarrow> datetime \<Rightarrow> db \<Rightarrow> string \<Rightarrow> string \<Rightarrow> string option \<Rightarrow> datetime \<Rightarrow> datetime
     \<Rightarrow> string \<Rightarrow> (exn + Election) \<times> db" where
  "ElectionService_create_election new_id stamp d organization_id title description start_time end_time
       created_by =
     (case OrganizationRepository_get_by_id d organization_id of
        None \<Rightarrow> (Inl (HTTPException 404 ''Organization not found''), d)
      | Some org \<Rightarrow>
          if end_time \<le> start_time then
            (Inl (HTTPException 400 ''End time must be after start time''), d)
          else ElectionRepository_create new_id stamp d organization_id title description
                 start_time end_time created_by)"

definition ElectionService_update_election :: "db \<Rightarrow> string \<Rightarrow> kwargs \<Rightarrow> (exn + Election) \<times> db" where
  "ElectionService_update_election d election_id kw =
     (case ElectionRepository_get_by_id d election_id of
        None \<Rightarrow> (Inl (HTTPException 404 ''Election not found''), d)
      | Some election \<Rightarrow>
          if Election_status election \<noteq> ''draft'' then
            (Inl (HTTPException 400 ''Can only update elections in draft status''), d)
          else ElectionRepository_update d election kw)"

definition ElectionService_activate_election :: "db \<Rightarrow> string \<Rightarrow> (exn + Election) \<times> db" where
  "ElectionService_activate_election d election_id =
     (case ElectionRepository_get_by_id d election_id of
        None \<Rightarrow> (Inl (HTTPException 404 ''Election not found''), d)
      | Some election \<Rightarrow>
          if Election_status election \<noteq> ''draft'' then
            (Inl (HTTPException 400 ''Can only activate elections in draft status''), d)
          else
            let cands = CandidateRepository_get_by_election d election_id in
            if length cands < 2 then
              (Inl (HTTPException 400
                      ''Election must have at least 2 candidates to activate''), d)
            else (case ElectionRepository_update_status d election ''active'' of
                    (election', d') \<Rightarrow> (Inr election', d')))"

definition ElectionService_close_election :: "db \<Rightarrow> string \<Rightarrow> (exn + Election) \<times> db" where
  "ElectionService_close_election d election_id =
     (case ElectionRepository_get_by_id d election_id of
        None \<Rightarrow> (Inl (HTTPException 404 ''Election not found''), d)
      | Some election \<Rightarrow>
          if Election_status election \<noteq> ''active'' then
            (Inl (HTTPException 400 ''Can only close active elections''), d)
          else (case ElectionRepository_update_status d election ''closed'' of
                  (election', d') \<Rightarrow> (Inr election', d')))"

definition ElectionService_delete_election :: "db \<Rightarrow> string \<Rightarrow> (exn + string) \<times> db" where
  "ElectionService_delete_election d election_id =
     (case ElectionRepository_get_by_id d election_id of
        None \<Rightarrow> (Inl (HTTPException 404 ''Election not found''), d)
      | Some election \<Rightarrow>
          if Election_status election \<noteq> ''closed'' then
            (Inl (HTTPException 400 ''Only closed elections can be deleted''), d)
          else (Inr ''Election deleted'', ElectionRepository_delete d election))"

definition ElectionService_add_candidate ::
  "string \<Rightarrow> datetime \<Rightarrow> db \<Rightarrow> string \<Rightarrow> string \<Rightarrow> string option \<Rightarrow> (exn + Candidate) \<times> db" where
  "ElectionService_add_candidate new_id stamp d election_id name description =
     (case ElectionRepository_get_by_id d election_id of
        None \<Rightarrow> (Inl (HTTPException 404 ''Election not found''), d)
      | Some election \<Rightarrow>
          if Election_status election \<noteq> ''draft'' then
            (Inl (HTTPException 400 ''Can only add candidates to draft elections''), d)
          else CandidateRepository_create new_id stamp d election_id name description)"

definition ElectionService_delete_candidate :: "db \<Rightarrow> string \<Rightarrow> (exn + string) \<times> db" where
  "ElectionService_delete_candidate d candidate_id =
     (case CandidateRepository_get_by_id d candidate_id of
        None \<Rightarrow> (Inl (HTTPException 404 ''Candidate not found''), d)
      | Some candidate \<Rightarrow>
          let election = ElectionRepository_get_by_id d (Candidate_election_id candidate) in
          if (case election of None \<Rightarrow> False | Some e \<Rightarrow> Election_status e \<noteq> ''draft'') then
            (Inl (HTTPException 400 ''Can only remove candidates from draft elections''), d)
          else (Inr ''Candidate removed'', CandidateRepository_delete d candidate))"

text \<open>
  The operations that write to the store, each with the arguments of its call, and the
  store that an operation leaves.
\<close>

datatype operation =
    Create_election string datetime string string "string option" datetime datetime string
  | Update_election string kwargs
  | Activate_election string
  | Close_election string
  | Delete_election string
  | Add_candidate string datetime string string "string option"
  | Delete_candidate string
  | Cast_vote env datetime datetime string string string

fun perform :: "operation \<Rightarrow> db \<Rightarrow> db" where
  "perform (Create_election new_id stamp org title descr start_time end_time creator) d =
     snd (ElectionService_create_election new_id stamp d org title descr start_time end_time
            creator)"
| "perform (Update_election election_id kw) d =
     snd (ElectionService_update_election d election_id kw)"
| "perform (Activate_election election_id) d = snd (ElectionService_activate_election d election_id)"
| "perform (Close_election election_id) d = snd (ElectionService_close_election d election_id)"
| "perform (Delete_election election_id) d = snd (ElectionService_delete_election d election_id)"
| "perform (Add_candidate new_id stamp election_id name descr) d =
     snd (ElectionService_add_candidate new_id stamp d election_id name descr)"
| "perform (Delete_candidate candidate_id) d = snd (ElectionService_delete_candidate d candidate_id)"
| "perform (Cast_vote env now stamp user_id election_id candidate_id) d =
     snd (VoteService_cast_vote env now stamp id d user_id election_id candidate_id)"





section \<open>The identifier policy and the validations, as the specification words them\<close>

text \<open>
  The specification's identifier-selection policy (section 3, VoterIdentity): the
  employee identifier when the account has one, otherwise the account identifier. An
  account has an employee identifier when the column is neither \<^verbatim>\<open>NULL\<close> nor the
  empty string (Python's truth value of \<^verbatim>\<open>user.emp_id\<close>). These definitions are
  not used by the model of the code; the code is compared with them.
\<close>

definition has_employee_id :: "User \<Rightarrow> bool" where
  "has_employee_id u = (case User_emp_id u of None \<Rightarrow> False | Some e \<Rightarrow> e \<noteq> [])"

definition voter_identifier :: "db \<Rightarrow> string \<Rightarrow> string" where
  "voter_identifier d user_id =
     (case UserRepository_get_by_id d user_id of
        None \<Rightarrow> user_id
      | Some u \<Rightarrow> (case User_emp_id u of
                    None \<Rightarrow> user_id
                  | Some e \<Rightarrow> if has_employee_id u then e else user_id))"

definition hashed_token_of :: "env \<Rightarrow> db \<Rightarrow> string \<Rightarrow> string \<Rightarrow> string" where
  "hashed_token_of env d user_id election_id =
     hash_vote_token env (generate_vote_token env (voter_identifier d user_id) election_id)"

text \<open>
  The four validations that precede the token computation (section 4.2): the election
  exists, is active, the clock is inside its window, and the candidate exists and belongs
  to the election.
\<close>

definition candidate_of_election :: "db \<Rightarrow> string \<Rightarrow> string \<Rightarrow> bool" where
  "candidate_of_election d election_id candidate_id =
     (case CandidateRepository_get_by_id d candidate_id of
        None \<Rightarrow> False
      | Some c \<Rightarrow> Candidate_election_id c = election_id)"

definition open_for_voting :: "datetime \<Rightarrow> db \<Rightarrow> string \<Rightarrow> bool" where
  "open_for_voting now d election_id =
     (case ElectionRepository_get_by_id d election_id of
        None \<Rightarrow> False
      | Some e \<Rightarrow> Election_status e = ''active''
                  \<and> Election_start_time e \<le> now \<and> now \<le> Election_end_time e)"

text \<open>
  The tie-break that the specification gives for the results (section 4.4): of two entries
  with equal vote counts, the candidate created earlier comes first. And the entry of a
  candidate as the specification describes it: the candidate with the number of its votes.
\<close>

definition ties_by_creation :: "db \<Rightarrow> result_row list \<Rightarrow> bool" where
  "ties_by_creation d results =
     sorted_wrt (\<lambda>r s. snd (snd r) = snd (snd s) \<longrightarrow>
        (case (CandidateRepository_get_by_id d (fst r),
               CandidateRepository_get_by_id d (fst s)) of
           (Some a, Some b) \<Rightarrow> Candidate_created_at a \<le> Candidate_created_at b
         | _ \<Rightarrow> True)) results"

definition votes_for :: "db \<Rightarrow> Candidate \<Rightarrow> nat" where
  "votes_for d c = length (filter (\<lambda>v. Vote_candidate_id v = Candidate_id c) (votes d))"

definition candidate_entry :: "db \<Rightarrow> Candidate \<Rightarrow> CandidateResult" where
  "candidate_entry d c =
     \<lparr>CandidateResult_candidate_id = Candidate_id c,
      CandidateResult_candidate_name = Candidate_name c,
      CandidateResult_vote_count = votes_for d c\<rparr>"

text \<open>The row that a call writes, and the receipt it returns.\<close>

definition vote_row :: "env \<Rightarrow> datetime \<Rightarrow> db \<Rightarrow> string \<Rightarrow> string \<Rightarrow> string \<Rightarrow> Vote" where
  "vote_row env stamp d user_id election_id candidate_id =
     \<lparr>Vote_election_id = election_id, Vote_candidate_id = candidate_id,
      Vote_hashed_voter_token = hashed_token_of env d user_id election_id,
      Vote_created_at = stamp\<rparr>"

definition receipt :: "datetime \<Rightarrow> string \<Rightarrow> VoteConfirmation" where
  "receipt stamp election_id =
     \<lparr>VoteConfirmation_message = ''Vote cast successfully'',
      VoteConfirmation_election_id = election_id,
      VoteConfirmation_voted_at = stamp\<rparr>"

section \<open>A small store for examples\<close>

text \<open>
  Stand-ins for the two digests (the theorems hold for every pair of digest functions),
  and a store with one election of each status.
\<close>

definition example_env :: env where
  "example_env =
     \<lparr>HMAC_SECRET_KEY = ''k'',
      hmac_sha256_hexdigest = (\<lambda>key msg. key @ ''/'' @ msg),
      sha256_hexdigest = (\<lambda>msg. ''#'' @ msg)\<rparr>"

definition example_election :: "string \<Rightarrow> string \<Rightarrow> Election" where
  "example_election i st =
     \<lparr>Election_id = i, Election_organization_id = ''o1'', Election_title = ''Board'',
      Election_description = None, Election_start_time = 100, Election_end_time = 200,
      Election_status = st, Election_created_by = ''u1'', Election_created_at = 50\<rparr>"

definition example_candidate :: "string \<Rightarrow> string \<Rightarrow> string \<Rightarrow> datetime \<Rightarrow> Candidate" where
  "example_candidate i e n t =
     \<lparr>Candidate_id = i, Candidate_election_id = e, Candidate_name = n,
      Candidate_description = None, Candidate_created_at = t\<rparr>"

definition example_user :: "string \<Rightarrow> string option \<Rightarrow> User" where
  "example_user i emp =
     \<lparr>User_id = i, User_email = i @ ''@example.org'', User_emp_id = emp,
      User_is_active = True\<rparr>"

definition example_db :: db where
  "example_db =
     \<lparr>organizations = [''o1''],
      users = [example_user ''u1'' (Some ''E7''), example_user ''u2'' (Some ''E7''),
               example_user ''u3'' None],
      elections = [example_election ''e1'' ''active'', example_election ''e2'' ''draft'',
                   example_election ''e3'' ''closed''],
      candidates = [example_candidate ''c1'' ''e1'' ''A'' 60, example_candidate ''c2'' ''e1'' ''B'' 61,
                    example_candidate ''c3'' ''e2'' ''C'' 62,
                    example_candidate ''c4'' ''e3'' ''D'' 63, example_candidate ''c5'' ''e3'' ''E'' 64],
      votes = []\<rparr>"

text \<open>The example store with two votes for candidate \<open>c5\<close> of the closed election.\<close>

definition counted_db :: db where
  "counted_db =
     example_db\<lparr>votes :=
       [\<lparr>Vote_election_id = ''e3'', Vote_candidate_id = ''c5'',
         Vote_hashed_voter_token = ''#k/E7:e3'', Vote_created_at = 120\<rparr>,
        \<lparr>Vote_election_id = ''e3'', Vote_candidate_id = ''c5'',
         Vote_hashed_voter_token = ''#k/u3:e3'', Vote_created_at = 121\<rparr>]\<rparr>"

text \<open>
  The example store with the two candidates of the closed election created in the other
  order: \<open>c5\<close> first, \<open>c4\<close> after it.
\<close>

definition tie_db :: db where
  "tie_db =
     example_db\<lparr>candidates :=
       [example_candidate ''c1'' ''e1'' ''A'' 60, example_candidate ''c2'' ''e1'' ''B'' 61,
        example_candidate ''c3'' ''e2'' ''C'' 62,
        example_candidate ''c5'' ''e3'' ''E'' 63, example_candidate ''c4'' ''e3'' ''D'' 64]\<rparr>"


text \<open>
  A second request of voter \<open>u3\<close> for election \<open>e1\<close> that runs alone and commits
  while the first one is between its pre-check and its insert.
\<close>

definition racing_request :: "db \<Rightarrow> db" where
  "racing_request d = snd (VoteService_cast_vote example_env 150 151 id d ''u3'' ''e1'' ''c2'')"


section \<open>Casting a vote: one lemma for each way out of the function\<close>

lemmas cast_vote_unfold = VoteService_cast_vote_def Let_def candidate_of_election_def
  open_for_voting_def hashed_token_of_def voter_identifier_def has_employee_id_def

lemma cast_vote_election_absent:
  "ElectionRepository_get_by_id d election_id = None \<Longrightarrow>
   VoteService_cast_vote env now stamp others d user_id election_id candidate_id
     = (Inl (HTTPException 404 ''Election not found''), d)"
  by (simp add: VoteService_cast_vote_def)

lemma cast_vote_not_active:
  "ElectionRepository_get_by_id d election_id = Some e \<Longrightarrow>
   Election_status e \<noteq> ''active'' \<Longrightarrow>
   VoteService_cast_vote env now stamp others d user_id election_id candidate_id
     = (Inl (HTTPException 400
          (''Election is not active (current status: '' @ Election_status e @ '')'')), d)"
  by (simp add: VoteService_cast_vote_def)

lemma cast_vote_not_started:
  "ElectionRepository_get_by_id d election_id = Some e \<Longrightarrow>
   Election_status e = ''active'' \<Longrightarrow> now < Election_start_time e \<Longrightarrow>
   VoteService_cast_vote env now stamp others d user_id election_id candidate_id
     = (Inl (HTTPException 400 ''Election has not started yet''), d)"
  by (simp add: VoteService_cast_vote_def)

lemma cast_vote_ended:
  "ElectionRepository_get_by_id d election_id = Some e \<Longrightarrow>
   Election_status e = ''active'' \<Longrightarrow> \<not> now < Election_start_time e \<Longrightarrow>
   now > Election_end_time e \<Longrightarrow>
   VoteService_cast_vote env now stamp others d user_id election_id candidate_id
     = (Inl (HTTPException 400 ''Election has ended''), d)"
  by (simp add: VoteService_cast_vote_def)

lemma cast_vote_invalid_candidate:
  "open_for_voting now d election_id \<Longrightarrow>
   \<not> candidate_of_election d election_id candidate_id \<Longrightarrow>
   VoteService_cast_vote env now stamp others d user_id election_id candidate_id
     = (Inl (HTTPException 400 ''Invalid candidate for this election''), d)"
  by (auto simp: cast_vote_unfold split: option.splits)

lemma cast_vote_duplicate:
  "open_for_voting now d election_id \<Longrightarrow>
   candidate_of_election d election_id candidate_id \<Longrightarrow>
   VoteRepository_check_duplicate d election_id (hashed_token_of env d user_id election_id) \<Longrightarrow>
   VoteService_cast_vote env now stamp others d user_id election_id candidate_id
     = (Inl (HTTPException 409 ''You have already voted in this election''), d)"
  by (auto simp: cast_vote_unfold split: option.splits)

lemma cast_vote_insert:
  "open_for_voting now d election_id \<Longrightarrow>
   candidate_of_election d election_id candidate_id \<Longrightarrow>
   \<not> VoteRepository_check_duplicate d election_id (hashed_token_of env d user_id election_id) \<Longrightarrow>
   VoteService_cast_vote env now stamp others d user_id election_id candidate_id
     = (case votes_insert (others d) (vote_row env stamp d user_id election_id candidate_id) of
          Inl e \<Rightarrow> (Inl e, others d)
        | Inr d' \<Rightarrow> (Inr (receipt stamp election_id), d'))"
  by (auto simp: cast_vote_unfold VoteRepository_cast_vote_def vote_row_def receipt_def
           split: option.splits sum.splits)

text \<open>Every call leaves the function by one of the seven ways above.\<close>

lemma cast_vote_cases:
  obtains
    (absent) "ElectionRepository_get_by_id d election_id = None"
  | (not_active) e where "ElectionRepository_get_by_id d election_id = Some e"
      "Election_status e \<noteq> ''active''"
  | (not_started) e where "ElectionRepository_get_by_id d election_id = Some e"
      "Election_status e = ''active''" "now < Election_start_time e"
  | (ended) e where "ElectionRepository_get_by_id d election_id = Some e"
      "Election_status e = ''active''" "\<not> now < Election_start_time e"
      "now > Election_end_time e"
  | (invalid) "open_for_voting now d election_id"
      "\<not> candidate_of_election d election_id candidate_id"
  | (duplicate) "open_for_voting now d election_id"
      "candidate_of_election d election_id candidate_id"
      "VoteRepository_check_duplicate d election_id (hashed_token_of env d user_id election_id)"
  | (insert) "open_for_voting now d election_id"
      "candidate_of_election d election_id candidate_id"
      "\<not> VoteRepository_check_duplicate d election_id (hashed_token_of env d user_id election_id)"
proof (cases "ElectionRepository_get_by_id d election_id")
  case None
  then show ?thesis by (rule absent)
next
  case (Some e)
  show ?thesis
  proof (cases "Election_status e = ''active''")
    case False
    with Some show ?thesis by (rule not_active)
  next
    case True
    show ?thesis
    proof (cases "now < Election_start_time e")
      case True
      with Some \<open>Election_status e = ''active''\<close> show ?thesis by (rule not_started)
    next
      case False
      show ?thesis
      proof (cases "now > Election_end_time e")
        case True
        with Some \<open>Election_status e = ''active''\<close> False show ?thesis by (rule ended)
      next
        case inside: False
        with Some True False have op: "open_for_voting now d election_id"
          by (simp add: open_for_voting_def)
        then show ?thesis
          using invalid duplicate insert by blast
      qed
    qed
  qed
qed

section \<open>Claims about casting a vote\<close>

text \<open>
  C2. A call of \<^verbatim>\<open>cast_vote\<close> creates exactly one vote record or none. When it
  raises, the store it leaves is the store it found: \<open>d\<close> when a validation or the
  pre-check failed, \<open>others d\<close> (what the other sessions had committed) when the insert
  was rejected; for a call that runs alone both are \<open>d\<close>. When it returns, the store
  is the one the insert found, with the single row of this call appended to the ledger.
\<close>

theorem cast_vote_one_record_or_none:
  "(case VoteService_cast_vote env now stamp others d user_id election_id candidate_id of
      (Inl e, d') \<Rightarrow> d' = d \<or> d' = others d
    | (Inr r, d') \<Rightarrow>
        d' = (others d)\<lparr>votes := votes (others d)
                @ [vote_row env stamp d user_id election_id candidate_id]\<rparr>)"
proof (cases rule: cast_vote_cases[where d = d and election_id = election_id and now = now
    and candidate_id = candidate_id and env = env and user_id = user_id])
  case insert
  then show ?thesis
    by (simp add: cast_vote_insert votes_insert_def split: sum.splits)
qed (simp_all add: cast_vote_election_absent cast_vote_not_active cast_vote_not_started
       cast_vote_ended cast_vote_invalid_candidate cast_vote_duplicate)

theorem cast_vote_one_record_or_none_witness:
  "VoteService_cast_vote example_env 150 151 id example_db ''u3'' ''e1'' ''c1''
     = (Inr (receipt 151 ''e1''),
        example_db\<lparr>votes := [vote_row example_env 151 example_db ''u3'' ''e1'' ''c1'']\<rparr>)
   \<and> VoteService_cast_vote example_env 150 151 id example_db ''u3'' ''e2'' ''c3''
     = (Inl (HTTPException 400 ''Election is not active (current status: draft)''), example_db)"
proof -
  have a: "fst (VoteService_cast_vote example_env 150 151 id example_db ''u3'' ''e1'' ''c1'')
            = Inr (receipt 151 ''e1'')"
    by code_simp
  have b: "fst (VoteService_cast_vote example_env 150 151 id example_db ''u3'' ''e2'' ''c3'')
            = Inl (HTTPException 400 ''Election is not active (current status: draft)'')"
    by code_simp
  have v: "votes example_db = []" by (simp add: example_db_def)
  from a v cast_vote_one_record_or_none[where env = example_env and now = 150 and stamp = 151
      and others = id and d = example_db and user_id = "''u3''" and election_id = "''e1''"
      and candidate_id = "''c1''"]
  have 1: "VoteService_cast_vote example_env 150 151 id example_db ''u3'' ''e1'' ''c1''
     = (Inr (receipt 151 ''e1''),
        example_db\<lparr>votes := [vote_row example_env 151 example_db ''u3'' ''e1'' ''c1'']\<rparr>)"
    by (cases "VoteService_cast_vote example_env 150 151 id example_db ''u3'' ''e1'' ''c1''") auto
  from b cast_vote_one_record_or_none[where env = example_env and now = 150 and stamp = 151
      and others = id and d = example_db and user_id = "''u3''" and election_id = "''e2''"
      and candidate_id = "''c3''"]
  have 2: "VoteService_cast_vote example_env 150 151 id example_db ''u3'' ''e2'' ''c3''
     = (Inl (HTTPException 400 ''Election is not active (current status: draft)''), example_db)"
    by (cases "VoteService_cast_vote example_env 150 151 id example_db ''u3'' ''e2'' ''c3''") auto
  from 1 2 show ?thesis by simp
qed

text \<open>
  C3. The validations of \<^verbatim>\<open>cast_vote\<close> run in a fixed order, and the first one
  that fails decides the error: the election exists; its status is \<^verbatim>\<open>active\<close>;
  the clock is not before the start and not after the end; the candidate exists and
  belongs to the election; then the token is computed and looked up in the ledger; then
  the row is inserted. Each line below assumes only that the earlier checks pass and
  nothing about the later ones, so an input that fails several checks gets the error of
  the earliest.
\<close>

theorem cast_vote_validation_order:
  "(ElectionRepository_get_by_id d election_id = None \<longrightarrow>
      fst (VoteService_cast_vote env now stamp others d user_id election_id candidate_id)
        = Inl (HTTPException 404 ''Election not found''))
   \<and> (\<forall>e. ElectionRepository_get_by_id d election_id = Some e
          \<and> Election_status e \<noteq> ''active'' \<longrightarrow>
      fst (VoteService_cast_vote env now stamp others d user_id election_id candidate_id)
        = Inl (HTTPException 400
            (''Election is not active (current status: '' @ Election_status e @ '')'')))
   \<and> (\<forall>e. ElectionRepository_get_by_id d election_id = Some e
          \<and> Election_status e = ''active'' \<and> now < Election_start_time e \<longrightarrow>
      fst (VoteService_cast_vote env now stamp others d user_id election_id candidate_id)
        = Inl (HTTPException 400 ''Election has not started yet''))
   \<and> (\<forall>e. ElectionRepository_get_by_id d election_id = Some e
          \<and> Election_status e = ''active'' \<and> Election_start_time e \<le> now
          \<and> Election_end_time e < now \<longrightarrow>
      fst (VoteService_cast_vote env now stamp others d user_id election_id candidate_id)
        = Inl (HTTPException 400 ''Election has ended''))
   \<and> (open_for_voting now d election_id
        \<and> \<not> candidate_of_election d election_id candidate_id \<longrightarrow>
      fst (VoteService_cast_vote env now stamp others d user_id election_id candidate_id)
        = Inl (HTTPException 400 ''Invalid candidate for this election''))
   \<and> (open_for_voting now d election_id
        \<and> candidate_of_election d election_id candidate_id
        \<and> VoteRepository_check_duplicate d election_id
             (hashed_token_of env d user_id election_id) \<longrightarrow>
      fst (VoteService_cast_vote env now stamp others d user_id election_id candidate_id)
        = Inl (HTTPException 409 ''You have already voted in this election''))
   \<and> (open_for_voting now d election_id
        \<and> candidate_of_election d election_id candidate_id
        \<and> \<not> VoteRepository_check_duplicate d election_id
               (hashed_token_of env d user_id election_id) \<longrightarrow>
      fst (VoteService_cast_vote env now stamp others d user_id election_id candidate_id)
        = (case votes_insert (others d)
                  (vote_row env stamp d user_id election_id candidate_id) of
             Inl e \<Rightarrow> Inl e
           | Inr d' \<Rightarrow> Inr (receipt stamp election_id)))"
  by (simp add: cast_vote_election_absent cast_vote_not_active cast_vote_not_started
        cast_vote_ended cast_vote_invalid_candidate cast_vote_duplicate cast_vote_insert
        not_less split: sum.splits)

theorem cast_vote_validation_order_witness:
  "fst (VoteService_cast_vote example_env 0 1 id example_db ''u9'' ''e9'' ''c9'')
     = Inl (HTTPException 404 ''Election not found'')
   \<and> fst (VoteService_cast_vote example_env 0 1 id example_db ''u9'' ''e2'' ''c9'')
     = Inl (HTTPException 400 ''Election is not active (current status: draft)'')
   \<and> fst (VoteService_cast_vote example_env 0 1 id example_db ''u9'' ''e1'' ''c9'')
     = Inl (HTTPException 400 ''Election has not started yet'')
   \<and> fst (VoteService_cast_vote example_env 300 301 id example_db ''u9'' ''e1'' ''c9'')
     = Inl (HTTPException 400 ''Election has ended'')
   \<and> fst (VoteService_cast_vote example_env 150 152 id (racing_request example_db)
            ''u3'' ''e1'' ''c3'')
     = Inl (HTTPException 400 ''Invalid candidate for this election'')
   \<and> fst (VoteService_cast_vote example_env 150 152 id (racing_request example_db)
            ''u3'' ''e1'' ''c1'')
     = Inl (HTTPException 409 ''You have already voted in this election'')
   \<and> fst (VoteService_cast_vote example_env 150 152 id (racing_request example_db)
            ''u1'' ''e1'' ''c1'')
     = Inr (receipt 152 ''e1'')"
proof -
  note order = cast_vote_validation_order[where env = example_env and others = id]
  have 1: "ElectionRepository_get_by_id example_db ''e9'' = None"
    by code_simp
  have 2: "ElectionRepository_get_by_id example_db ''e2'' = Some (example_election ''e2'' ''draft'')
           \<and> Election_status (example_election ''e2'' ''draft'') \<noteq> ''active''"
    by code_simp
  have 3: "ElectionRepository_get_by_id example_db ''e1'' = Some (example_election ''e1'' ''active'')
           \<and> Election_status (example_election ''e1'' ''active'') = ''active''
           \<and> 0 < Election_start_time (example_election ''e1'' ''active'')"
    by code_simp
  have 4: "ElectionRepository_get_by_id example_db ''e1'' = Some (example_election ''e1'' ''active'')
           \<and> Election_status (example_election ''e1'' ''active'') = ''active''
           \<and> Election_start_time (example_election ''e1'' ''active'') \<le> 300
           \<and> Election_end_time (example_election ''e1'' ''active'') < 300"
    by code_simp
  have 5: "open_for_voting 150 (racing_request example_db) ''e1''
           \<and> \<not> candidate_of_election (racing_request example_db) ''e1'' ''c3''"
    by code_simp
  have 6: "open_for_voting 150 (racing_request example_db) ''e1''
           \<and> candidate_of_election (racing_request example_db) ''e1'' ''c1''
           \<and> VoteRepository_check_duplicate (racing_request example_db) ''e1''
                (hashed_token_of example_env (racing_request example_db) ''u3'' ''e1'')"
    by code_simp
  have 7: "open_for_voting 150 (racing_request example_db) ''e1''
           \<and> candidate_of_election (racing_request example_db) ''e1'' ''c1''
           \<and> \<not> VoteRepository_check_duplicate (racing_request example_db) ''e1''
                (hashed_token_of example_env (racing_request example_db) ''u1'' ''e1'')"
    by code_simp
  have 8: "(case votes_insert (id (racing_request example_db))
                  (vote_row example_env 152 (racing_request example_db) ''u1'' ''e1'' ''c1'') of
             Inl e \<Rightarrow> Inl e
           | Inr d' \<Rightarrow> Inr (receipt 152 ''e1'')) = (Inr (receipt 152 ''e1'') :: exn + VoteConfirmation)"
    by code_simp
  from 1 order[where d = example_db and election_id = "''e9''"]
  have a: "fst (VoteService_cast_vote example_env 0 1 id example_db ''u9'' ''e9'' ''c9'')
     = Inl (HTTPException 404 ''Election not found'')" by blast
  from 2 order[where d = example_db and election_id = "''e2''" and now = 0 and stamp = 1
        and user_id = "''u9''" and candidate_id = "''c9''"]
  have b: "fst (VoteService_cast_vote example_env 0 1 id example_db ''u9'' ''e2'' ''c9'')
     = Inl (HTTPException 400 ''Election is not active (current status: draft)'')"
    by (simp add: example_election_def)
  from 3 order[where d = example_db and election_id = "''e1''" and now = 0 and stamp = 1
        and user_id = "''u9''" and candidate_id = "''c9''"]
  have c: "fst (VoteService_cast_vote example_env 0 1 id example_db ''u9'' ''e1'' ''c9'')
     = Inl (HTTPException 400 ''Election has not started yet'')" by blast
  from 4 order[where d = example_db and election_id = "''e1''" and now = 300 and stamp = 301
        and user_id = "''u9''" and candidate_id = "''c9''"]
  have d: "fst (VoteService_cast_vote example_env 300 301 id example_db ''u9'' ''e1'' ''c9'')
     = Inl (HTTPException 400 ''Election has ended'')" by blast
  from 5 order[where d = "racing_request example_db" and election_id = "''e1''" and now = 150
        and stamp = 152 and user_id = "''u3''" and candidate_id = "''c3''"]
  have e: "fst (VoteService_cast_vote example_env 150 152 id (racing_request example_db)
            ''u3'' ''e1'' ''c3'')
     = Inl (HTTPException 400 ''Invalid candidate for this election'')" by blast
  from 6 order[where d = "racing_request example_db" and election_id = "''e1''" and now = 150
        and stamp = 152 and user_id = "''u3''" and candidate_id = "''c1''"]
  have f: "fst (VoteService_cast_vote example_env 150 152 id (racing_request example_db)
            ''u3'' ''e1'' ''c1'')
     = Inl (HTTPException 409 ''You have already voted in this election'')" by blast
  from 7 8 order[where d = "racing_request example_db" and election_id = "''e1''" and now = 150
        and stamp = 152 and user_id = "''u1''" and candidate_id = "''c1''"]
  have g: "fst (VoteService_cast_vote example_env 150 152 id (racing_request example_db)
            ''u1'' ''e1'' ''c1'')
     = Inr (receipt 152 ''e1'')" by simp
  from a b c d e f g show ?thesis by blast
qed

lemma cast_vote_status_404:
  assumes "fst (VoteService_cast_vote env now stamp others d user_id election_id candidate_id)
             = Inl e"
    and "http_status e = 404"
  shows "ElectionRepository_get_by_id d election_id = None"
proof (cases rule: cast_vote_cases[where d = d and election_id = election_id and now = now
    and candidate_id = candidate_id and env = env and user_id = user_id])
  case insert
  with assms show ?thesis
    by (auto simp: cast_vote_insert votes_insert_def split: sum.splits if_splits)
qed (use assms in \<open>auto simp: cast_vote_not_active cast_vote_not_started
       cast_vote_ended cast_vote_invalid_candidate cast_vote_duplicate\<close>)

text \<open>
  C6, as the code has it. Status 404 (NotFound) is raised when the election is absent and
  by nothing else in \<^verbatim>\<open>cast_vote\<close>. The candidate is tested by the single guard
  \<^verbatim>\<open>not candidate or candidate.election_id != election_id\<close>: in an election
  that is open for voting, a candidate that is absent and a candidate that belongs to
  another election get the same error, \<^verbatim>\<open>Invalid candidate for this election\<close>
  with status 400.
\<close>

theorem cast_vote_not_found_invalid_candidate:
  "(ElectionRepository_get_by_id d election_id = None \<longrightarrow>
      fst (VoteService_cast_vote env now stamp others d user_id election_id candidate_id)
        = Inl (HTTPException 404 ''Election not found''))
   \<and> (\<forall>e. fst (VoteService_cast_vote env now stamp others d user_id election_id candidate_id)
            = Inl e \<and> http_status e = 404
          \<longrightarrow> ElectionRepository_get_by_id d election_id = None)
   \<and> (open_for_voting now d election_id
        \<and> CandidateRepository_get_by_id d candidate_id = None \<longrightarrow>
      fst (VoteService_cast_vote env now stamp others d user_id election_id candidate_id)
        = Inl (HTTPException 400 ''Invalid candidate for this election''))
   \<and> (\<forall>c. open_for_voting now d election_id
        \<and> CandidateRepository_get_by_id d candidate_id = Some c
        \<and> Candidate_election_id c \<noteq> election_id \<longrightarrow>
      fst (VoteService_cast_vote env now stamp others d user_id election_id candidate_id)
        = Inl (HTTPException 400 ''Invalid candidate for this election''))"
  using cast_vote_status_404[of env now stamp others d user_id election_id candidate_id]
  by (auto simp: cast_vote_election_absent cast_vote_invalid_candidate
        candidate_of_election_def)

theorem cast_vote_not_found_invalid_candidate_witness:
  "fst (VoteService_cast_vote example_env 150 151 id example_db ''u3'' ''e9'' ''c1'')
     = Inl (HTTPException 404 ''Election not found'')
   \<and> fst (VoteService_cast_vote example_env 150 151 id example_db ''u3'' ''e1'' ''c9'')
     = Inl (HTTPException 400 ''Invalid candidate for this election'')
   \<and> fst (VoteService_cast_vote example_env 150 151 id example_db ''u3'' ''e1'' ''c3'')
     = Inl (HTTPException 400 ''Invalid candidate for this election'')"
proof -
  note T = cast_vote_not_found_invalid_candidate[where env = example_env and now = 150
      and stamp = 151 and others = id and d = example_db and user_id = "''u3''"]
  have 1: "ElectionRepository_get_by_id example_db ''e9'' = None"
    by code_simp
  have 2: "open_for_voting 150 example_db ''e1''
           \<and> CandidateRepository_get_by_id example_db ''c9'' = None"
    by code_simp
  have 3: "open_for_voting 150 example_db ''e1''
           \<and> CandidateRepository_get_by_id example_db ''c3''
               = Some (example_candidate ''c3'' ''e2'' ''C'' 62)
           \<and> Candidate_election_id (example_candidate ''c3'' ''e2'' ''C'' 62) \<noteq> ''e1''"
    by code_simp
  from 1 T[where election_id = "''e9''" and candidate_id = "''c1''"]
  have a: "fst (VoteService_cast_vote example_env 150 151 id example_db ''u3'' ''e9'' ''c1'')
     = Inl (HTTPException 404 ''Election not found'')" by blast
  from 2 T[where election_id = "''e1''" and candidate_id = "''c9''"]
  have b: "fst (VoteService_cast_vote example_env 150 151 id example_db ''u3'' ''e1'' ''c9'')
     = Inl (HTTPException 400 ''Invalid candidate for this election'')" by blast
  from 3 T[where election_id = "''e1''" and candidate_id = "''c3''"]
  have c: "fst (VoteService_cast_vote example_env 150 151 id example_db ''u3'' ''e1'' ''c3'')
     = Inl (HTTPException 400 ''Invalid candidate for this election'')" by blast
  from a b c show ?thesis by blast
qed

text \<open>
  C6 as the claim states it gives an absent candidate the error NotFound. It fails on the
  example store: election \<open>e1\<close> exists, no candidate has the id \<open>c9\<close>, and the
  call is answered with status 400.
\<close>

theorem cast_vote_absent_candidate_counterexample:
  "ElectionRepository_get_by_id example_db ''e1'' \<noteq> None
   \<and> CandidateRepository_get_by_id example_db ''c9'' = None
   \<and> fst (VoteService_cast_vote example_env 150 151 id example_db ''u3'' ''e1'' ''c9'')
       = Inl (HTTPException 400 ''Invalid candidate for this election'')"
  by code_simp

lemma cast_vote_status_409:
  "(\<exists>e. fst (VoteService_cast_vote env now stamp others d user_id election_id candidate_id) = Inl e
        \<and> http_status e = 409)
   \<longleftrightarrow> (open_for_voting now d election_id
        \<and> candidate_of_election d election_id candidate_id
        \<and> VoteRepository_check_duplicate d election_id
             (hashed_token_of env d user_id election_id))"
proof (cases rule: cast_vote_cases[where d = d and election_id = election_id and now = now
    and candidate_id = candidate_id and env = env and user_id = user_id])
  case absent
  then show ?thesis by (simp add: cast_vote_election_absent open_for_voting_def)
next
  case (not_active e)
  then show ?thesis by (simp add: cast_vote_not_active open_for_voting_def)
next
  case (not_started e)
  then show ?thesis by (simp add: cast_vote_not_started open_for_voting_def)
next
  case (ended e)
  then show ?thesis by (simp add: cast_vote_ended open_for_voting_def)
next
  case invalid
  then show ?thesis by (simp add: cast_vote_invalid_candidate)
next
  case duplicate
  then show ?thesis by (simp add: cast_vote_duplicate)
next
  case insert
  then show ?thesis
    by (auto simp: cast_vote_insert votes_insert_def split: sum.splits if_splits)
qed

text \<open>
  C1, as the code has it. Neither \<^verbatim>\<open>VoteRepository.cast_vote\<close> nor
  \<^verbatim>\<open>VoteService.cast_vote\<close> has a handler around \<^verbatim>\<open>db.commit()\<close>. When
  the call reaches the insert and the row violates the unique constraint on
  (election_id, hashed_voter_token), the call fails with \<^verbatim>\<open>IntegrityError\<close> and
  commits nothing. A call fails with status 409 (DuplicateVote) exactly when the four
  validations pass and the pre-check finds the hashed token in the ledger.
\<close>

theorem cast_vote_constraint_violation:
  "(open_for_voting now d election_id
      \<and> candidate_of_election d election_id candidate_id
      \<and> \<not> VoteRepository_check_duplicate d election_id
             (hashed_token_of env d user_id election_id)
      \<and> \<not> uq_vote_election_token (others d)
             (vote_row env stamp d user_id election_id candidate_id) \<longrightarrow>
    VoteService_cast_vote env now stamp others d user_id election_id candidate_id
      = (Inl IntegrityError, others d))
   \<and> ((\<exists>e. fst (VoteService_cast_vote env now stamp others d user_id election_id candidate_id)
              = Inl e \<and> http_status e = 409)
        \<longleftrightarrow> open_for_voting now d election_id
          \<and> candidate_of_election d election_id candidate_id
          \<and> VoteRepository_check_duplicate d election_id
               (hashed_token_of env d user_id election_id))"
  using cast_vote_status_409[of env now stamp others d user_id election_id candidate_id]
  by (simp add: cast_vote_insert votes_insert_def)

theorem cast_vote_constraint_violation_witness:
  "VoteService_cast_vote example_env 150 152 racing_request example_db ''u3'' ''e1'' ''c1''
     = (Inl IntegrityError, racing_request example_db)
   \<and> (\<exists>e. fst (VoteService_cast_vote example_env 150 152 id (racing_request example_db)
                 ''u3'' ''e1'' ''c1'') = Inl e \<and> http_status e = 409)"
proof -
  have 1: "open_for_voting 150 example_db ''e1''
      \<and> candidate_of_election example_db ''e1'' ''c1''
      \<and> \<not> VoteRepository_check_duplicate example_db ''e1''
             (hashed_token_of example_env example_db ''u3'' ''e1'')
      \<and> \<not> uq_vote_election_token (racing_request example_db)
             (vote_row example_env 152 example_db ''u3'' ''e1'' ''c1'')"
    by code_simp
  have 2: "open_for_voting 150 (racing_request example_db) ''e1''
      \<and> candidate_of_election (racing_request example_db) ''e1'' ''c1''
      \<and> VoteRepository_check_duplicate (racing_request example_db) ''e1''
             (hashed_token_of example_env (racing_request example_db) ''u3'' ''e1'')"
    by code_simp
  from 1 cast_vote_constraint_violation[where env = example_env and now = 150 and stamp = 152
      and others = racing_request and d = example_db and user_id = "''u3''"
      and election_id = "''e1''" and candidate_id = "''c1''"]
  have a: "VoteService_cast_vote example_env 150 152 racing_request example_db ''u3'' ''e1'' ''c1''
     = (Inl IntegrityError, racing_request example_db)" by blast
  from 2 cast_vote_constraint_violation[where env = example_env and now = 150 and stamp = 152
      and others = id and d = "racing_request example_db" and user_id = "''u3''"
      and election_id = "''e1''" and candidate_id = "''c1''"]
  have b: "\<exists>e. fst (VoteService_cast_vote example_env 150 152 id (racing_request example_db)
                 ''u3'' ''e1'' ''c1'') = Inl e \<and> http_status e = 409" by blast
  from a b show ?thesis by blast
qed

text \<open>
  C1 as the claim states it has the violation at insert time answered with DuplicateVote.
  It fails when two requests of voter \<open>u3\<close> race: the pre-check of the first finds
  nothing, the second request commits its row, and the insert of the first violates the
  constraint and raises \<^verbatim>\<open>IntegrityError\<close>.
\<close>

theorem cast_vote_constraint_violation_counterexample:
  "\<not> VoteRepository_check_duplicate example_db ''e1''
        (hashed_token_of example_env example_db ''u3'' ''e1'')
   \<and> \<not> uq_vote_election_token (racing_request example_db)
          (vote_row example_env 152 example_db ''u3'' ''e1'' ''c1'')
   \<and> VoteService_cast_vote example_env 150 152 racing_request example_db ''u3'' ''e1'' ''c1''
       = (Inl IntegrityError, racing_request example_db)"
  by code_simp

text \<open>What a call leaves behind, and which rows an operation can add to the ledger.\<close>

lemma cast_vote_result:
  obtains (raised) e where
      "fst (VoteService_cast_vote env now stamp others d user_id election_id candidate_id) = Inl e"
      "snd (VoteService_cast_vote env now stamp others d user_id election_id candidate_id) = d
       \<or> snd (VoteService_cast_vote env now stamp others d user_id election_id candidate_id)
           = others d"
  | (returned)
      "open_for_voting now d election_id"
      "candidate_of_election d election_id candidate_id"
      "\<not> VoteRepository_check_duplicate d election_id (hashed_token_of env d user_id election_id)"
      "uq_vote_election_token (others d) (vote_row env stamp d user_id election_id candidate_id)"
      "votes_foreign_keys (others d) (vote_row env stamp d user_id election_id candidate_id)"
      "VoteService_cast_vote env now stamp others d user_id election_id candidate_id
         = (Inr (receipt stamp election_id),
            (others d)\<lparr>votes := votes (others d)
               @ [vote_row env stamp d user_id election_id candidate_id]\<rparr>)"
proof (cases rule: cast_vote_cases[where d = d and election_id = election_id and now = now
    and candidate_id = candidate_id and env = env and user_id = user_id])
  case insert
  show ?thesis
  proof (cases "uq_vote_election_token (others d)
                  (vote_row env stamp d user_id election_id candidate_id)
                \<and> votes_foreign_keys (others d)
                  (vote_row env stamp d user_id election_id candidate_id)")
    case True
    with insert show ?thesis
      by (intro returned) (simp_all add: cast_vote_insert votes_insert_def)
  next
    case False
    with insert show ?thesis
      by (intro raised[of IntegrityError]) (simp_all add: cast_vote_insert votes_insert_def)
  qed
qed (auto intro!: raised simp: cast_vote_election_absent cast_vote_not_active
       cast_vote_not_started cast_vote_ended cast_vote_invalid_candidate cast_vote_duplicate)

lemma perform_votes:
  assumes v: "v \<in> set (votes (perform op d))"
  shows "v \<in> set (votes d)
   \<or> (\<exists>env now stamp user_id election_id candidate_id.
         op = Cast_vote env now stamp user_id election_id candidate_id
         \<and> v = vote_row env stamp d user_id election_id candidate_id)"
proof (cases op)
  case (Cast_vote env now stamp user_id election_id candidate_id)
  show ?thesis
  proof (cases rule: cast_vote_result[where env = env and now = now and stamp = stamp
        and others = id and d = d and user_id = user_id and election_id = election_id
        and candidate_id = candidate_id])
    case (raised e)
    with v Cast_vote show ?thesis by auto
  next
    case returned
    with v Cast_vote show ?thesis by auto
  qed
qed (use v in \<open>auto simp: ElectionService_create_election_def ElectionRepository_create_def
       elections_insert_def ElectionService_update_election_def ElectionRepository_update_def
       elections_modify_def
       ElectionService_activate_election_def ElectionService_close_election_def
       ElectionRepository_update_status_def ElectionService_delete_election_def
       ElectionRepository_delete_def ElectionService_add_candidate_def
       CandidateRepository_create_def candidates_insert_def
       ElectionService_delete_candidate_def CandidateRepository_delete_def Let_def
     split: option.splits if_splits sum.splits\<close>)

section \<open>Claims about the vote token\<close>

text \<open>
  C4. The vote token is the keyed digest (HMAC-SHA256 under
  \<^verbatim>\<open>settings.HMAC_SECRET_KEY\<close>) of the voter identifier, a colon and the election
  id, as the hex string that \<^verbatim>\<open>hexdigest()\<close> renders; the stored value is the
  SHA-256 hex digest of the token. The token is a function of the key, the digest and
  the two inputs, so two calls with the same inputs give the same token. Only the digest
  of the token is persisted: every row that casting a vote adds to the ledger consists of
  the election id, the candidate id, the digest and the time of the insert, and no other
  operation adds a row to the ledger.
\<close>

theorem vote_token_derivation:
  "generate_vote_token env voter election_id
     = hmac_sha256_hexdigest env (HMAC_SECRET_KEY env) (voter @ '':'' @ election_id)
   \<and> hash_vote_token env token = sha256_hexdigest env token
   \<and> (HMAC_SECRET_KEY env' = HMAC_SECRET_KEY env
        \<and> hmac_sha256_hexdigest env' = hmac_sha256_hexdigest env \<longrightarrow>
      generate_vote_token env' voter election_id = generate_vote_token env voter election_id)
   \<and> (\<forall>v \<in> set (votes (perform (Cast_vote env now stamp user_id election_id candidate_id) d)).
        v \<in> set (votes d)
        \<or> v = \<lparr>Vote_election_id = election_id, Vote_candidate_id = candidate_id,
                 Vote_hashed_voter_token =
                   sha256_hexdigest env
                     (hmac_sha256_hexdigest env (HMAC_SECRET_KEY env)
                        (voter_identifier d user_id @ '':'' @ election_id)),
                 Vote_created_at = stamp\<rparr>)
   \<and> (\<forall>op. (\<forall>env now stamp user_id election_id candidate_id.
               op \<noteq> Cast_vote env now stamp user_id election_id candidate_id)
          \<longrightarrow> set (votes (perform op d)) \<subseteq> set (votes d))"
proof -
  have "v \<in> set (votes d)
        \<or> v = \<lparr>Vote_election_id = election_id, Vote_candidate_id = candidate_id,
                 Vote_hashed_voter_token =
                   sha256_hexdigest env
                     (hmac_sha256_hexdigest env (HMAC_SECRET_KEY env)
                        (voter_identifier d user_id @ '':'' @ election_id)),
                 Vote_created_at = stamp\<rparr>"
    if "v \<in> set (votes (perform (Cast_vote env now stamp user_id election_id candidate_id) d))"
    for v
    using perform_votes[OF that]
    by (auto simp: vote_row_def hashed_token_of_def generate_vote_token_def hash_vote_token_def)
  moreover have "set (votes (perform op d)) \<subseteq> set (votes d)"
    if "\<forall>env now stamp user_id election_id candidate_id.
               op \<noteq> Cast_vote env now stamp user_id election_id candidate_id" for op
    using perform_votes[of _ op d] that by blast
  ultimately show ?thesis
    by (simp add: generate_vote_token_def hash_vote_token_def)
qed

theorem vote_token_derivation_witness:
  "generate_vote_token example_env ''E7'' ''e1'' = ''k/E7:e1''
   \<and> \<lparr>Vote_election_id = ''e1'', Vote_candidate_id = ''c2'',
       Vote_hashed_voter_token = ''#k/E7:e1'', Vote_created_at = 151\<rparr>
       \<in> set (votes (perform (Cast_vote example_env 150 151 ''u1'' ''e1'' ''c2'') example_db))
   \<and> set (votes (perform (Cast_vote example_env 150 151 ''u1'' ''e1'' ''c2'') example_db))
       \<subseteq> {\<lparr>Vote_election_id = ''e1'', Vote_candidate_id = ''c2'',
            Vote_hashed_voter_token = ''#k/E7:e1'', Vote_created_at = 151\<rparr>}
   \<and> set (votes (perform (Close_election ''e1'') example_db)) \<subseteq> set (votes example_db)"
proof -
  note T = vote_token_derivation[where env = example_env and env' = example_env
      and voter = "''E7''" and election_id = "''e1''" and now = 150 and stamp = 151
      and user_id = "''u1''" and candidate_id = "''c2''" and d = example_db]
  have 1: "hmac_sha256_hexdigest example_env (HMAC_SECRET_KEY example_env) (''E7'' @ '':'' @ ''e1'')
            = ''k/E7:e1''"
    by code_simp
  have 2: "sha256_hexdigest example_env
             (hmac_sha256_hexdigest example_env (HMAC_SECRET_KEY example_env)
                (voter_identifier example_db ''u1'' @ '':'' @ ''e1'')) = ''#k/E7:e1''"
    by code_simp
  have 3: "votes example_db = []"
    by (simp add: example_db_def)
  have 4: "\<lparr>Vote_election_id = ''e1'', Vote_candidate_id = ''c2'',
       Vote_hashed_voter_token = ''#k/E7:e1'', Vote_created_at = 151\<rparr>
       \<in> set (votes (perform (Cast_vote example_env 150 151 ''u1'' ''e1'' ''c2'') example_db))"
    by code_simp
  from T 1 have a: "generate_vote_token example_env ''E7'' ''e1'' = ''k/E7:e1''"
    by simp
  from T have "\<forall>v \<in> set (votes (perform
                   (Cast_vote example_env 150 151 ''u1'' ''e1'' ''c2'') example_db)).
        v \<in> set (votes example_db)
        \<or> v = \<lparr>Vote_election_id = ''e1'', Vote_candidate_id = ''c2'',
                 Vote_hashed_voter_token =
                   sha256_hexdigest example_env
                     (hmac_sha256_hexdigest example_env (HMAC_SECRET_KEY example_env)
                        (voter_identifier example_db ''u1'' @ '':'' @ ''e1'')),
                 Vote_created_at = 151\<rparr>"
    by blast
  with 2 3 have b: "set (votes (perform
                   (Cast_vote example_env 150 151 ''u1'' ''e1'' ''c2'') example_db))
       \<subseteq> {\<lparr>Vote_election_id = ''e1'', Vote_candidate_id = ''c2'',
            Vote_hashed_voter_token = ''#k/E7:e1'', Vote_created_at = 151\<rparr>}"
    by auto
  from T have c: "set (votes (perform (Close_election ''e1'') example_db))
                    \<subseteq> set (votes example_db)"
    by blast
  from a 4 b c show ?thesis by blast
qed

section \<open>Claims about the voter identifier\<close>

lemma check_vote_status_eq:
  "VoteService_check_vote_status env d user_id election_id
     = \<lparr>VoteStatusResponse_election_id = election_id,
        VoteStatusResponse_has_voted =
          VoteRepository_check_duplicate d election_id
            (hashed_token_of env d user_id election_id)\<rparr>"
  by (simp add: VoteService_check_vote_status_def hashed_token_of_def voter_identifier_def
        has_employee_id_def Let_def split: option.splits)

lemma check_duplicate_iff:
  "VoteRepository_check_duplicate d election_id h
     \<longleftrightarrow> (\<exists>v \<in> set (votes d). Vote_election_id v = election_id
                               \<and> Vote_hashed_voter_token v = h)"
  unfolding VoteRepository_check_duplicate_def Let_def find_None_iff by blast

lemma voter_identifier_employee:
  "UserRepository_get_by_id d user_id = Some a \<Longrightarrow> User_emp_id a = Some e \<Longrightarrow> e \<noteq> []
   \<Longrightarrow> voter_identifier d user_id = e"
  by (simp add: voter_identifier_def has_employee_id_def)

lemma voter_identifier_account:
  "UserRepository_get_by_id d user_id = Some a \<Longrightarrow> \<not> has_employee_id a
   \<Longrightarrow> voter_identifier d user_id = user_id"
  by (simp add: voter_identifier_def has_employee_id_def split: option.splits)

text \<open>
  C5. The token that \<^verbatim>\<open>cast_vote\<close> stores depends only on the employee id when the
  account has one (the column is neither \<^verbatim>\<open>NULL\<close> nor empty), and on the account
  id only when it has none. \<^verbatim>\<open>check_vote_status\<close> selects the identifier in the
  same way: it reports a vote exactly when the ledger holds the hashed token that
  \<^verbatim>\<open>cast_vote\<close> would compute, and \<^verbatim>\<open>cast_vote\<close> answers 409 exactly when
  its validations pass and \<^verbatim>\<open>check_vote_status\<close> reports a vote. So after one
  account has voted, every account with the same employee id is reported as having voted
  in that election and cannot vote in it.
\<close>

theorem employee_id_precedence:
  "(\<forall>a e r d'. UserRepository_get_by_id d user_id = Some a \<and> User_emp_id a = Some e
        \<and> e \<noteq> []
        \<and> VoteService_cast_vote env now stamp others d user_id election_id candidate_id
            = (Inr r, d') \<longrightarrow>
      votes d' = votes (others d)
        @ [\<lparr>Vote_election_id = election_id, Vote_candidate_id = candidate_id,
             Vote_hashed_voter_token =
               hash_vote_token env (generate_vote_token env e election_id),
             Vote_created_at = stamp\<rparr>])
   \<and> (\<forall>a r d'. UserRepository_get_by_id d user_id = Some a \<and> \<not> has_employee_id a
        \<and> VoteService_cast_vote env now stamp others d user_id election_id candidate_id
            = (Inr r, d') \<longrightarrow>
      votes d' = votes (others d)
        @ [\<lparr>Vote_election_id = election_id, Vote_candidate_id = candidate_id,
             Vote_hashed_voter_token =
               hash_vote_token env (generate_vote_token env user_id election_id),
             Vote_created_at = stamp\<rparr>])
   \<and> (VoteStatusResponse_has_voted (VoteService_check_vote_status env d user_id election_id)
        \<longleftrightarrow> VoteRepository_check_duplicate d election_id
              (hashed_token_of env d user_id election_id))
   \<and> (fst (VoteService_cast_vote env now stamp others d user_id election_id candidate_id)
          = Inl (HTTPException 409 ''You have already voted in this election'')
        \<longleftrightarrow> open_for_voting now d election_id
            \<and> candidate_of_election d election_id candidate_id
            \<and> VoteStatusResponse_has_voted
                 (VoteService_check_vote_status env d user_id election_id))
   \<and> (\<forall>a a' e r d' other_id. UserRepository_get_by_id d user_id = Some a
        \<and> UserRepository_get_by_id d other_id = Some a'
        \<and> User_emp_id a = Some e \<and> User_emp_id a' = Some e \<and> e \<noteq> []
        \<and> VoteService_cast_vote env now stamp id d user_id election_id candidate_id
            = (Inr r, d') \<longrightarrow>
      VoteStatusResponse_has_voted (VoteService_check_vote_status env d' other_id election_id)
      \<and> (\<forall>now' stamp' others' candidate_id'.
            \<exists>x. fst (VoteService_cast_vote env now' stamp' others' d' other_id election_id
                       candidate_id') = Inl x))"
proof (intro conjI allI impI)
  fix a e r d'
  assume h: "UserRepository_get_by_id d user_id = Some a \<and> User_emp_id a = Some e
        \<and> e \<noteq> []
        \<and> VoteService_cast_vote env now stamp others d user_id election_id candidate_id
            = (Inr r, d')"
  then have "voter_identifier d user_id = e"
    by (simp add: voter_identifier_employee)
  with h show "votes d' = votes (others d)
        @ [\<lparr>Vote_election_id = election_id, Vote_candidate_id = candidate_id,
             Vote_hashed_voter_token =
               hash_vote_token env (generate_vote_token env e election_id),
             Vote_created_at = stamp\<rparr>]"
    by (cases rule: cast_vote_result[where env = env and now = now and stamp = stamp
        and others = others and d = d and user_id = user_id and election_id = election_id
        and candidate_id = candidate_id])
       (auto simp: vote_row_def hashed_token_of_def)
next
  fix a r d'
  assume h: "UserRepository_get_by_id d user_id = Some a \<and> \<not> has_employee_id a
        \<and> VoteService_cast_vote env now stamp others d user_id election_id candidate_id
            = (Inr r, d')"
  then have "voter_identifier d user_id = user_id"
    by (simp add: voter_identifier_account)
  with h show "votes d' = votes (others d)
        @ [\<lparr>Vote_election_id = election_id, Vote_candidate_id = candidate_id,
             Vote_hashed_voter_token =
               hash_vote_token env (generate_vote_token env user_id election_id),
             Vote_created_at = stamp\<rparr>]"
    by (cases rule: cast_vote_result[where env = env and now = now and stamp = stamp
        and others = others and d = d and user_id = user_id and election_id = election_id
        and candidate_id = candidate_id])
       (auto simp: vote_row_def hashed_token_of_def)
next
  show "VoteStatusResponse_has_voted (VoteService_check_vote_status env d user_id election_id)
        \<longleftrightarrow> VoteRepository_check_duplicate d election_id
              (hashed_token_of env d user_id election_id)"
    by (simp add: check_vote_status_eq)
next
  show "fst (VoteService_cast_vote env now stamp others d user_id election_id candidate_id)
          = Inl (HTTPException 409 ''You have already voted in this election'')
        \<longleftrightarrow> open_for_voting now d election_id
            \<and> candidate_of_election d election_id candidate_id
            \<and> VoteStatusResponse_has_voted
                 (VoteService_check_vote_status env d user_id election_id)"
  proof (cases rule: cast_vote_cases[where d = d and election_id = election_id and now = now
    and candidate_id = candidate_id and env = env and user_id = user_id])
    case absent
    then show ?thesis by (simp add: cast_vote_election_absent open_for_voting_def)
  next
    case (not_active e)
    then show ?thesis by (simp add: cast_vote_not_active open_for_voting_def)
  next
    case (not_started e)
    then show ?thesis by (simp add: cast_vote_not_started open_for_voting_def)
  next
    case (ended e)
    then show ?thesis by (simp add: cast_vote_ended open_for_voting_def)
  next
    case invalid
    then show ?thesis by (simp add: cast_vote_invalid_candidate)
  next
    case duplicate
    then show ?thesis by (simp add: cast_vote_duplicate check_vote_status_eq)
  next
    case insert
    then show ?thesis
      by (auto simp: cast_vote_insert votes_insert_def check_vote_status_eq
               split: sum.splits if_splits)
  qed
next
  fix a a' e r d' other_id
  assume h: "UserRepository_get_by_id d user_id = Some a
        \<and> UserRepository_get_by_id d other_id = Some a'
        \<and> User_emp_id a = Some e \<and> User_emp_id a' = Some e \<and> e \<noteq> []
        \<and> VoteService_cast_vote env now stamp id d user_id election_id candidate_id
            = (Inr r, d')"
  then have same: "voter_identifier d user_id = e" "voter_identifier d other_id = e"
    by (simp_all add: voter_identifier_employee)
  from h have d': "d' = d\<lparr>votes := votes d
               @ [vote_row env stamp d user_id election_id candidate_id]\<rparr>"
    by (cases rule: cast_vote_result[where env = env and now = now and stamp = stamp
        and others = id and d = d and user_id = user_id and election_id = election_id
        and candidate_id = candidate_id]) auto
  have users: "voter_identifier d' other_id = voter_identifier d other_id"
    by (simp add: d' voter_identifier_def UserRepository_get_by_id_def)
  have dup: "VoteRepository_check_duplicate d' election_id
               (hashed_token_of env d' other_id election_id)"
    using same users
    by (auto simp: check_duplicate_iff d' vote_row_def hashed_token_of_def)
  then show "VoteStatusResponse_has_voted
               (VoteService_check_vote_status env d' other_id election_id)"
    by (simp add: check_vote_status_eq)
  fix now' stamp' others' candidate_id'
  show "\<exists>x. fst (VoteService_cast_vote env now' stamp' others' d' other_id election_id
                       candidate_id') = Inl x"
  proof (cases rule: cast_vote_result[where env = env and now = now' and stamp = stamp'
        and others = others' and d = d' and user_id = other_id and election_id = election_id
        and candidate_id = candidate_id'])
    case (raised x)
    then show ?thesis by blast
  next
    case returned
    with dup show ?thesis by simp
  qed
qed

theorem employee_id_precedence_witness:
  "votes (perform (Cast_vote example_env 150 151 ''u1'' ''e1'' ''c1'') example_db)
     = [\<lparr>Vote_election_id = ''e1'', Vote_candidate_id = ''c1'',
         Vote_hashed_voter_token = ''#k/E7:e1'', Vote_created_at = 151\<rparr>]
   \<and> votes (perform (Cast_vote example_env 150 151 ''u3'' ''e1'' ''c1'') example_db)
     = [\<lparr>Vote_election_id = ''e1'', Vote_candidate_id = ''c1'',
         Vote_hashed_voter_token = ''#k/u3:e1'', Vote_created_at = 151\<rparr>]
   \<and> VoteStatusResponse_has_voted
        (VoteService_check_vote_status example_env
           (perform (Cast_vote example_env 150 151 ''u1'' ''e1'' ''c1'') example_db)
           ''u2'' ''e1'')
   \<and> (\<exists>x. fst (VoteService_cast_vote example_env 160 161 id
                 (perform (Cast_vote example_env 150 151 ''u1'' ''e1'' ''c1'') example_db)
                 ''u2'' ''e1'' ''c2'') = Inl x)
   \<and> fst (VoteService_cast_vote example_env 160 161 id
            (perform (Cast_vote example_env 150 151 ''u1'' ''e1'' ''c1'') example_db)
            ''u1'' ''e1'' ''c2'')
       = Inl (HTTPException 409 ''You have already voted in this election'')"
proof -
  let ?d1 = "perform (Cast_vote example_env 150 151 ''u1'' ''e1'' ''c1'') example_db"
  let ?d3 = "perform (Cast_vote example_env 150 151 ''u3'' ''e1'' ''c1'') example_db"
  note T = employee_id_precedence[where env = example_env and election_id = "''e1''"]
  have u1: "UserRepository_get_by_id example_db ''u1'' = Some (example_user ''u1'' (Some ''E7''))
            \<and> User_emp_id (example_user ''u1'' (Some ''E7'')) = Some ''E7'' \<and> ''E7'' \<noteq> []"
    by code_simp
  have u2: "UserRepository_get_by_id example_db ''u2'' = Some (example_user ''u2'' (Some ''E7''))
            \<and> User_emp_id (example_user ''u2'' (Some ''E7'')) = Some ''E7''"
    by code_simp
  have u3: "UserRepository_get_by_id example_db ''u3'' = Some (example_user ''u3'' None)
            \<and> \<not> has_employee_id (example_user ''u3'' None)"
    by code_simp
  have cv1: "VoteService_cast_vote example_env 150 151 id example_db ''u1'' ''e1'' ''c1''
               = (Inr (receipt 151 ''e1''), ?d1)"
    by code_simp
  have cv3: "VoteService_cast_vote example_env 150 151 id example_db ''u3'' ''e1'' ''c1''
               = (Inr (receipt 151 ''e1''), ?d3)"
    by code_simp
  have h1: "hash_vote_token example_env (generate_vote_token example_env ''E7'' ''e1'')
              = ''#k/E7:e1''"
    by code_simp
  have h3: "hash_vote_token example_env (generate_vote_token example_env ''u3'' ''e1'')
              = ''#k/u3:e1''"
    by code_simp
  have v: "votes (id example_db) = []"
    by (simp add: example_db_def)
  have st: "open_for_voting 160 ?d1 ''e1'' \<and> candidate_of_election ?d1 ''e1'' ''c2''"
    by code_simp
  have a: "votes ?d1 = [\<lparr>Vote_election_id = ''e1'', Vote_candidate_id = ''c1'',
         Vote_hashed_voter_token = ''#k/E7:e1'', Vote_created_at = 151\<rparr>]"
    using T[where d = example_db and user_id = "''u1''" and now = 150 and stamp = 151
        and others = id and candidate_id = "''c1''", THEN conjunct1] u1 cv1 h1 v
    by (metis append_Nil)
  have b: "votes ?d3 = [\<lparr>Vote_election_id = ''e1'', Vote_candidate_id = ''c1'',
         Vote_hashed_voter_token = ''#k/u3:e1'', Vote_created_at = 151\<rparr>]"
    using T[where d = example_db and user_id = "''u3''" and now = 150 and stamp = 151
        and others = id and candidate_id = "''c1''", THEN conjunct2, THEN conjunct1]
      u3 cv3 h3 v
    by (metis append_Nil)
  have c: "VoteStatusResponse_has_voted (VoteService_check_vote_status example_env ?d1 ''u2'' ''e1'')
     \<and> (\<exists>x. fst (VoteService_cast_vote example_env 160 161 id ?d1 ''u2'' ''e1'' ''c2'') = Inl x)"
    using T[where d = example_db and user_id = "''u1''" and now = 150 and stamp = 151
        and candidate_id = "''c1''", THEN conjunct2, THEN conjunct2, THEN conjunct2,
        THEN conjunct2] u1 u2 cv1
    by blast
  have e: "VoteStatusResponse_has_voted
             (VoteService_check_vote_status example_env ?d1 ''u1'' ''e1'')"
    by code_simp
  have f: "fst (VoteService_cast_vote example_env 160 161 id ?d1 ''u1'' ''e1'' ''c2'')
       = Inl (HTTPException 409 ''You have already voted in this election'')"
    using T[where d = ?d1 and user_id = "''u1''" and now = 160 and stamp = 161
        and others = id and candidate_id = "''c2''", THEN conjunct2, THEN conjunct2,
        THEN conjunct2, THEN conjunct1] st e
    by blast
  from a b c f show ?thesis by blast
qed

lemma find_append_None:
  "find P xs = None \<Longrightarrow> find P (xs @ ys) = find P ys"
  by (induction xs) (auto split: if_splits)

text \<open>
  C10. When \<^verbatim>\<open>user_id\<close> matches no row of the users table, neither function fails on
  the missing user: both take the raw \<^verbatim>\<open>user_id\<close> as the voter identifier.
  \<^verbatim>\<open>check_vote_status\<close> looks up the token derived from it; \<^verbatim>\<open>cast_vote\<close>,
  once its validations pass, answers 409 when that token is in the ledger and otherwise
  inserts a row with it. Both behave exactly as if the store held an account with this id
  and no employee id.
\<close>

theorem unknown_user_falls_back_to_user_id:
  "UserRepository_get_by_id d user_id = None \<longrightarrow>
     VoteService_check_vote_status env d user_id election_id
       = \<lparr>VoteStatusResponse_election_id = election_id,
          VoteStatusResponse_has_voted =
            VoteRepository_check_duplicate d election_id
              (hash_vote_token env (generate_vote_token env user_id election_id))\<rparr>
     \<and> (open_for_voting now d election_id
          \<and> candidate_of_election d election_id candidate_id
          \<and> VoteRepository_check_duplicate d election_id
               (hash_vote_token env (generate_vote_token env user_id election_id)) \<longrightarrow>
        VoteService_cast_vote env now stamp others d user_id election_id candidate_id
          = (Inl (HTTPException 409 ''You have already voted in this election''), d))
     \<and> (open_for_voting now d election_id
          \<and> candidate_of_election d election_id candidate_id
          \<and> \<not> VoteRepository_check_duplicate d election_id
               (hash_vote_token env (generate_vote_token env user_id election_id)) \<longrightarrow>
        VoteService_cast_vote env now stamp others d user_id election_id candidate_id
          = (case votes_insert (others d)
                    \<lparr>Vote_election_id = election_id, Vote_candidate_id = candidate_id,
                     Vote_hashed_voter_token =
                       hash_vote_token env (generate_vote_token env user_id election_id),
                     Vote_created_at = stamp\<rparr> of
               Inl e \<Rightarrow> (Inl e, others d)
             | Inr d' \<Rightarrow> (Inr (receipt stamp election_id), d')))
     \<and> (\<forall>u. User_id u = user_id \<and> User_emp_id u = None \<longrightarrow>
          VoteService_check_vote_status env (d\<lparr>users := users d @ [u]\<rparr>) user_id election_id
            = VoteService_check_vote_status env d user_id election_id
          \<and> VoteService_cast_vote env now stamp id (d\<lparr>users := users d @ [u]\<rparr>)
              user_id election_id candidate_id
            = (fst (VoteService_cast_vote env now stamp id d user_id election_id candidate_id),
               (snd (VoteService_cast_vote env now stamp id d user_id election_id
                       candidate_id))\<lparr>users := users d @ [u]\<rparr>))"
proof (intro impI conjI allI)
  assume none: "UserRepository_get_by_id d user_id = None"
  then have ident: "voter_identifier d user_id = user_id"
    by (simp add: voter_identifier_def)
  then have tok: "hashed_token_of env d user_id election_id
                    = hash_vote_token env (generate_vote_token env user_id election_id)"
    by (simp add: hashed_token_of_def)
  show "VoteService_check_vote_status env d user_id election_id
       = \<lparr>VoteStatusResponse_election_id = election_id,
          VoteStatusResponse_has_voted =
            VoteRepository_check_duplicate d election_id
              (hash_vote_token env (generate_vote_token env user_id election_id))\<rparr>"
    by (simp add: check_vote_status_eq tok)
  show "VoteService_cast_vote env now stamp others d user_id election_id candidate_id
          = (Inl (HTTPException 409 ''You have already voted in this election''), d)"
    if "open_for_voting now d election_id
          \<and> candidate_of_election d election_id candidate_id
          \<and> VoteRepository_check_duplicate d election_id
               (hash_vote_token env (generate_vote_token env user_id election_id))"
    using that by (simp add: cast_vote_duplicate tok)
  show "VoteService_cast_vote env now stamp others d user_id election_id candidate_id
          = (case votes_insert (others d)
                    \<lparr>Vote_election_id = election_id, Vote_candidate_id = candidate_id,
                     Vote_hashed_voter_token =
                       hash_vote_token env (generate_vote_token env user_id election_id),
                     Vote_created_at = stamp\<rparr> of
               Inl e \<Rightarrow> (Inl e, others d)
             | Inr d' \<Rightarrow> (Inr (receipt stamp election_id), d'))"
    if "open_for_voting now d election_id
          \<and> candidate_of_election d election_id candidate_id
          \<and> \<not> VoteRepository_check_duplicate d election_id
               (hash_vote_token env (generate_vote_token env user_id election_id))"
    using that by (simp add: cast_vote_insert tok vote_row_def)
  fix u :: User
  assume u: "User_id u = user_id \<and> User_emp_id u = None"
  let ?d = "d\<lparr>users := users d @ [u]\<rparr>"
  from none u have known: "UserRepository_get_by_id ?d user_id = Some u"
    by (simp add: UserRepository_get_by_id_def find_append_None)
  with u have ident': "voter_identifier ?d user_id = user_id"
    by (simp add: voter_identifier_def)
  have tok': "hashed_token_of env ?d user_id election_id
                = hashed_token_of env d user_id election_id"
    by (simp add: hashed_token_of_def ident ident')
  have same: "open_for_voting now ?d election_id = open_for_voting now d election_id"
    "candidate_of_election ?d election_id candidate_id
       = candidate_of_election d election_id candidate_id"
    "ElectionRepository_get_by_id ?d election_id = ElectionRepository_get_by_id d election_id"
    "\<And>h. VoteRepository_check_duplicate ?d election_id h
       = VoteRepository_check_duplicate d election_id h"
    "\<And>v. votes_insert ?d v
       = (case votes_insert d v of Inl e \<Rightarrow> Inl e
          | Inr d' \<Rightarrow> Inr (d'\<lparr>users := users d @ [u]\<rparr>))"
    "vote_row env stamp ?d user_id election_id candidate_id
       = vote_row env stamp d user_id election_id candidate_id"
    by (simp_all add: open_for_voting_def candidate_of_election_def
          ElectionRepository_get_by_id_def CandidateRepository_get_by_id_def
          VoteRepository_check_duplicate_def votes_insert_def uq_vote_election_token_def
          votes_foreign_keys_def vote_row_def tok')
  show "VoteService_check_vote_status env ?d user_id election_id
            = VoteService_check_vote_status env d user_id election_id"
    by (simp add: check_vote_status_eq tok' same)
  show "VoteService_cast_vote env now stamp id ?d user_id election_id candidate_id
            = (fst (VoteService_cast_vote env now stamp id d user_id election_id candidate_id),
               (snd (VoteService_cast_vote env now stamp id d user_id election_id
                       candidate_id))\<lparr>users := users d @ [u]\<rparr>)"
  proof (cases rule: cast_vote_cases[where d = d and election_id = election_id and now = now
    and candidate_id = candidate_id and env = env and user_id = user_id])
    case absent
    then show ?thesis by (simp add: cast_vote_election_absent same)
  next
    case (not_active e)
    then show ?thesis by (simp add: cast_vote_not_active same)
  next
    case (not_started e)
    then show ?thesis by (simp add: cast_vote_not_started same)
  next
    case (ended e)
    then show ?thesis by (simp add: cast_vote_ended same)
  next
    case invalid
    then show ?thesis by (simp add: cast_vote_invalid_candidate same)
  next
    case duplicate
    then show ?thesis by (simp add: cast_vote_duplicate same tok')
  next
    case insert
    then show ?thesis by (simp add: cast_vote_insert same tok' split: sum.splits)
  qed
qed

theorem unknown_user_falls_back_to_user_id_witness:
  "UserRepository_get_by_id example_db ''u9'' = None
   \<and> VoteService_check_vote_status example_env example_db ''u9'' ''e1''
       = \<lparr>VoteStatusResponse_election_id = ''e1'', VoteStatusResponse_has_voted = False\<rparr>
   \<and> VoteService_cast_vote example_env 150 151 id example_db ''u9'' ''e1'' ''c1''
       = (Inr (receipt 151 ''e1''),
          example_db\<lparr>votes := [\<lparr>Vote_election_id = ''e1'', Vote_candidate_id = ''c1'',
                                  Vote_hashed_voter_token = ''#k/u9:e1'',
                                  Vote_created_at = 151\<rparr>]\<rparr>)
   \<and> VoteService_cast_vote example_env 160 161 id
         (example_db\<lparr>votes := [\<lparr>Vote_election_id = ''e1'', Vote_candidate_id = ''c1'',
                                  Vote_hashed_voter_token = ''#k/u9:e1'',
                                  Vote_created_at = 151\<rparr>]\<rparr>) ''u9'' ''e1'' ''c2''
       = (Inl (HTTPException 409 ''You have already voted in this election''),
          example_db\<lparr>votes := [\<lparr>Vote_election_id = ''e1'', Vote_candidate_id = ''c1'',
                                  Vote_hashed_voter_token = ''#k/u9:e1'',
                                  Vote_created_at = 151\<rparr>]\<rparr>)
   \<and> VoteService_cast_vote example_env 150 151 id
         (example_db\<lparr>users := users example_db @ [example_user ''u9'' None]\<rparr>)
         ''u9'' ''e1'' ''c1''
       = (Inr (receipt 151 ''e1''),
          example_db\<lparr>votes := [\<lparr>Vote_election_id = ''e1'', Vote_candidate_id = ''c1'',
                                  Vote_hashed_voter_token = ''#k/u9:e1'',
                                  Vote_created_at = 151\<rparr>],
                     users := users example_db @ [example_user ''u9'' None]\<rparr>)"
proof -
  let ?row = "\<lparr>Vote_election_id = ''e1'', Vote_candidate_id = ''c1'',
               Vote_hashed_voter_token = ''#k/u9:e1'', Vote_created_at = 151\<rparr>"
  let ?d1 = "example_db\<lparr>votes := [?row]\<rparr>"
  note T = unknown_user_falls_back_to_user_id[where env = example_env
      and user_id = "''u9''" and election_id = "''e1''"]
  have none: "UserRepository_get_by_id example_db ''u9'' = None"
    by code_simp
  have none1: "UserRepository_get_by_id ?d1 ''u9'' = None"
    by code_simp
  have tok: "hash_vote_token example_env (generate_vote_token example_env ''u9'' ''e1'')
               = ''#k/u9:e1''"
    by code_simp
  have nodup: "\<not> VoteRepository_check_duplicate example_db ''e1'' ''#k/u9:e1''"
    by code_simp
  have ok: "open_for_voting 150 example_db ''e1''
            \<and> candidate_of_election example_db ''e1'' ''c1''"
    by code_simp
  have ins: "votes_insert (id example_db) ?row = Inr ?d1"
    by code_simp
  have ok1: "open_for_voting 160 ?d1 ''e1'' \<and> candidate_of_election ?d1 ''e1'' ''c2''
             \<and> VoteRepository_check_duplicate ?d1 ''e1'' ''#k/u9:e1''"
    by code_simp
  have u: "User_id (example_user ''u9'' None) = ''u9''
           \<and> User_emp_id (example_user ''u9'' None) = None"
    by code_simp
  have a: "VoteService_check_vote_status example_env example_db ''u9'' ''e1''
       = \<lparr>VoteStatusResponse_election_id = ''e1'', VoteStatusResponse_has_voted = False\<rparr>"
    using T[where d = example_db] none tok nodup by simp
  have b: "VoteService_cast_vote example_env 150 151 id example_db ''u9'' ''e1'' ''c1''
       = (Inr (receipt 151 ''e1''), ?d1)"
    using T[where d = example_db and now = 150 and stamp = 151 and others = id
        and candidate_id = "''c1''"] none tok nodup ok ins by simp
  have c: "VoteService_cast_vote example_env 160 161 id ?d1 ''u9'' ''e1'' ''c2''
       = (Inl (HTTPException 409 ''You have already voted in this election''), ?d1)"
    using T[where d = ?d1 and now = 160 and stamp = 161 and others = id
        and candidate_id = "''c2''"] none1 tok ok1 by simp
  have d: "VoteService_cast_vote example_env 150 151 id
         (example_db\<lparr>users := users example_db @ [example_user ''u9'' None]\<rparr>)
         ''u9'' ''e1'' ''c1''
       = (Inr (receipt 151 ''e1''),
          ?d1\<lparr>users := users example_db @ [example_user ''u9'' None]\<rparr>)"
    using T[where d = example_db and now = 150 and stamp = 151
        and candidate_id = "''c1''"] none u b by simp
  from none a b c d show ?thesis by simp
qed

section \<open>Claims about the results\<close>

text \<open>With the primary key of the candidates in force, the groups of the query are the
  candidates of the election, each with the number of its votes.\<close>

lemma join_rows_nonempty: "join_rows d c \<noteq> []"
  by (simp add: join_rows_def split: list.splits)

lemma join_rows_fst: "r \<in> set (join_rows d c) \<Longrightarrow> fst r = c"
  by (auto simp: join_rows_def split: list.splits)

lemma filter_join_rows:
  "filter (\<lambda>(c', v). P c') (join_rows d c) = (if P c then join_rows d c else [])"
proof -
  have "\<forall>r \<in> set (join_rows d c). (case r of (c', v) \<Rightarrow> P c') = P c"
    by (auto dest: join_rows_fst)
  then show ?thesis
    by (cases "P c") (simp_all add: filter_id_conv filter_empty_conv)
qed

lemma filter_concat_join_rows:
  "filter (\<lambda>(c', v). P c') (concat (map (join_rows d) cs))
     = concat (map (join_rows d) (filter P cs))"
  by (induction cs) (simp_all add: filter_join_rows)

lemma count_join_rows:
  "length (filter (\<lambda>(c', v). Candidate_id c' = i \<and> Candidate_name c' = n \<and> v \<noteq> None)
             (join_rows d c))
     = (if Candidate_id c = i \<and> Candidate_name c = n then votes_for d c else 0)"
  by (auto simp: join_rows_def votes_for_def split: list.splits)

lemma count_concat_join_rows:
  "distinct (map Candidate_id cs) \<Longrightarrow> c \<in> set cs \<Longrightarrow>
   length (filter (\<lambda>(c', v). Candidate_id c' = Candidate_id c
                     \<and> Candidate_name c' = Candidate_name c \<and> v \<noteq> None)
             (concat (map (join_rows d) cs)))
     = votes_for d c"
proof (induction cs)
  case Nil
  then show ?case by simp
next
  case (Cons a cs)
  show ?case
  proof (cases "a = c")
    case True
    with Cons.prems(1) have "Candidate_id c \<notin> Candidate_id ` set cs"
      by simp
    then have "\<forall>x \<in> set cs. Candidate_id x \<noteq> Candidate_id c"
      by (metis imageI)
    then have "filter (\<lambda>(c', v). Candidate_id c' = Candidate_id c
                     \<and> Candidate_name c' = Candidate_name c \<and> v \<noteq> None)
             (concat (map (join_rows d) cs)) = []"
      by (auto simp: filter_empty_conv dest: join_rows_fst)
    with True show ?thesis by (simp add: count_join_rows del: not_None_eq)
  next
    case False
    with Cons.prems have "c \<in> set cs" "Candidate_id a \<noteq> Candidate_id c"
      by auto
    with Cons show ?thesis by (simp add: count_join_rows del: not_None_eq)
  qed
qed

lemma remdups_fresh_block:
  "xs \<noteq> [] \<Longrightarrow> \<forall>y \<in> set xs. y = x \<Longrightarrow> x \<notin> set ys \<Longrightarrow> remdups (xs @ ys) = x # remdups ys"
proof (induction xs)
  case Nil
  then show ?case by simp
next
  case (Cons a xs)
  then show ?case by (cases xs) auto
qed

lemma keys_concat_join_rows:
  "distinct (map Candidate_id cs) \<Longrightarrow>
   remdups (map (\<lambda>(c, v). (Candidate_id c, Candidate_name c)) (concat (map (join_rows d) cs)))
     = map (\<lambda>c. (Candidate_id c, Candidate_name c)) cs"
proof (induction cs)
  case Nil
  then show ?case by simp
next
  case (Cons a cs)
  let ?k = "\<lambda>(c, v). (Candidate_id c, Candidate_name c)"
  let ?rest = "map ?k (concat (map (join_rows d) cs))"
  have all: "\<forall>y \<in> set (map ?k (join_rows d a)). y = (Candidate_id a, Candidate_name a)"
    by (auto dest: join_rows_fst)
  have fresh: "(Candidate_id a, Candidate_name a) \<notin> set ?rest"
    using Cons.prems by (auto dest!: join_rows_fst)
  have "map ?k (join_rows d a) \<noteq> []"
    by (simp add: join_rows_nonempty)
  from remdups_fresh_block[OF this all fresh]
  have "remdups (map ?k (join_rows d a) @ ?rest)
          = (Candidate_id a, Candidate_name a) # remdups ?rest" .
  moreover from Cons have "remdups ?rest = map (\<lambda>c. (Candidate_id c, Candidate_name c)) cs"
    by simp
  ultimately show ?case
    by simp
qed

lemma result_groups_eq:
  assumes "distinct (map Candidate_id (candidates d))"
  shows "result_groups d election_id
           = map (\<lambda>c. (Candidate_id c, Candidate_name c, votes_for d c))
               (CandidateRepository_get_by_election d election_id)"
proof -
  let ?cs = "CandidateRepository_get_by_election d election_id"
  let ?joined = "concat (map (join_rows d) ?cs)"
  have joined: "filter (\<lambda>(c, v). Candidate_election_id c = election_id) (outerjoin_votes d)
                  = ?joined"
    by (simp add: outerjoin_votes_def filter_concat_join_rows
          CandidateRepository_get_by_election_def)
  from assms have dist: "distinct (map Candidate_id ?cs)"
    by (simp add: CandidateRepository_get_by_election_def distinct_map_filter)
  then have keys: "remdups (map (\<lambda>(c, v). (Candidate_id c, Candidate_name c)) ?joined)
                     = map (\<lambda>c. (Candidate_id c, Candidate_name c)) ?cs"
    by (rule keys_concat_join_rows)
  have "(case (Candidate_id c, Candidate_name c) of
           (i, n) \<Rightarrow> (i, n, length (filter (\<lambda>(c, v). Candidate_id c = i
                                              \<and> Candidate_name c = n \<and> v \<noteq> None) ?joined)))
          = (Candidate_id c, Candidate_name c, votes_for d c)"
    if "c \<in> set ?cs" for c
    using count_concat_join_rows[OF dist that, of d] by (simp del: not_None_eq)
  then show ?thesis
    unfolding result_groups_def Let_def joined keys map_map comp_def
    by (intro map_cong) simp_all
qed

text \<open>The query always has an answer, and what the service makes of it.\<close>

lemma get_results_answer:
  "VoteRepository_get_results d election_id
     (rev (sort_key (\<lambda>r. snd (snd r)) (result_groups d election_id)))"
proof -
  let ?xs = "sort_key (\<lambda>r. snd (snd r)) (result_groups d election_id)"
  have "sorted (map (\<lambda>r. snd (snd r)) ?xs)"
    by (rule sorted_sort_key)
  then have "sorted_wrt (\<lambda>r s. snd (snd r) \<le> snd (snd s)) ?xs"
    by (simp add: sorted_map)
  then have "sorted_wrt (\<lambda>r s. snd (snd s) \<le> snd (snd r)) (rev ?xs)"
    by (simp add: sorted_wrt_rev)
  then show ?thesis
    by (simp add: VoteRepository_get_results_def)
qed

lemma get_results_closed:
  "ElectionRepository_get_by_id d election_id = Some e \<Longrightarrow> Election_status e = ''closed'' \<Longrightarrow>
   VoteService_get_results d election_id results
     = Inr \<lparr>ElectionResults_election_id = election_id,
            ElectionResults_title = Election_title e,
            ElectionResults_status = ''closed'',
            ElectionResults_total_votes = VoteRepository_get_total_votes d election_id,
            ElectionResults_results =
              map (\<lambda>r. \<lparr>CandidateResult_candidate_id = fst r,
                         CandidateResult_candidate_name = fst (snd r),
                         CandidateResult_vote_count = snd (snd r)\<rparr>) results\<rparr>"
  by (simp add: VoteService_get_results_def)

text \<open>
  C7. \<^verbatim>\<open>get_results\<close> fails with status 400 for every election whose status is
  not \<^verbatim>\<open>closed\<close>. For a closed election, whatever answer the store gives to the
  query, the response has exactly one entry for each candidate of the election, with the
  number of the candidate's votes (zero included), and a total equal to the number of
  vote records of the election. That the candidates' ids are distinct is the primary key
  of the table. The query has an answer for every store.
\<close>

theorem tally_results:
  "(\<forall>e. ElectionRepository_get_by_id d election_id = Some e
        \<and> Election_status e \<noteq> ''closed'' \<longrightarrow>
      VoteService_get_results d election_id results
        = Inl (HTTPException 400 ''Results are only available after the election is closed''))
   \<and> (\<forall>e. ElectionRepository_get_by_id d election_id = Some e
        \<and> Election_status e = ''closed''
        \<and> distinct (map Candidate_id (candidates d))
        \<and> VoteRepository_get_results d election_id results \<longrightarrow>
      (\<exists>r. VoteService_get_results d election_id results = Inr r
         \<and> mset (ElectionResults_results r)
             = mset (map (candidate_entry d)
                      (CandidateRepository_get_by_election d election_id))
         \<and> length (ElectionResults_results r)
             = length (CandidateRepository_get_by_election d election_id)
         \<and> ElectionResults_total_votes r
             = length (filter (\<lambda>v. Vote_election_id v = election_id) (votes d))))
   \<and> (\<exists>answer. VoteRepository_get_results d election_id answer)"
proof (intro conjI allI impI)
  fix e
  assume "ElectionRepository_get_by_id d election_id = Some e
        \<and> Election_status e \<noteq> ''closed''"
  then show "VoteService_get_results d election_id results
        = Inl (HTTPException 400 ''Results are only available after the election is closed'')"
    by (simp add: VoteService_get_results_def)
next
  fix e
  assume h: "ElectionRepository_get_by_id d election_id = Some e
        \<and> Election_status e = ''closed''
        \<and> distinct (map Candidate_id (candidates d))
        \<and> VoteRepository_get_results d election_id results"
  let ?entry = "\<lambda>r. \<lparr>CandidateResult_candidate_id = fst r,
                       CandidateResult_candidate_name = fst (snd r),
                       CandidateResult_vote_count = snd (snd r)\<rparr>"
  let ?cs = "CandidateRepository_get_by_election d election_id"
  from h have "mset results = mset (result_groups d election_id)"
    by (simp add: VoteRepository_get_results_def)
  with h have "mset results
                 = mset (map (\<lambda>c. (Candidate_id c, Candidate_name c, votes_for d c)) ?cs)"
    by (simp add: result_groups_eq)
  then have "image_mset ?entry (mset results)
               = image_mset ?entry
                   (mset (map (\<lambda>c. (Candidate_id c, Candidate_name c, votes_for d c)) ?cs))"
    by (rule arg_cong)
  then have l1: "mset (map ?entry results)
               = mset (map ?entry
                   (map (\<lambda>c. (Candidate_id c, Candidate_name c, votes_for d c)) ?cs))"
    by (simp only: mset_map)
  have l2: "map ?entry (map (\<lambda>c. (Candidate_id c, Candidate_name c, votes_for d c)) ?cs)
                   = map (candidate_entry d) ?cs"
    by (simp add: candidate_entry_def)
  from l1 have entries: "mset (map ?entry results) = mset (map (candidate_entry d) ?cs)"
    by (simp only: l2)
  then have "size (mset (map ?entry results)) = size (mset (map (candidate_entry d) ?cs))"
    by (rule arg_cong)
  then have len: "length (map ?entry results) = length ?cs"
    by simp
  from h have "VoteService_get_results d election_id results
     = Inr \<lparr>ElectionResults_election_id = election_id,
            ElectionResults_title = Election_title e,
            ElectionResults_status = ''closed'',
            ElectionResults_total_votes = VoteRepository_get_total_votes d election_id,
            ElectionResults_results = map ?entry results\<rparr>"
    by (simp add: get_results_closed)
  with entries len
  show "\<exists>r. VoteService_get_results d election_id results = Inr r
         \<and> mset (ElectionResults_results r) = mset (map (candidate_entry d) ?cs)
         \<and> length (ElectionResults_results r) = length ?cs
         \<and> ElectionResults_total_votes r
             = length (filter (\<lambda>v. Vote_election_id v = election_id) (votes d))"
    by (simp add: VoteRepository_get_total_votes_def)
next
  show "\<exists>answer. VoteRepository_get_results d election_id answer"
    using get_results_answer by blast
qed

theorem tally_results_witness:
  "VoteService_get_results counted_db ''e1'' []
     = Inl (HTTPException 400 ''Results are only available after the election is closed'')
   \<and> VoteService_get_results counted_db ''e2'' []
     = Inl (HTTPException 400 ''Results are only available after the election is closed'')
   \<and> VoteRepository_get_results counted_db ''e3'' [(''c5'', ''E'', 2), (''c4'', ''D'', 0)]
   \<and> (\<exists>r. VoteService_get_results counted_db ''e3'' [(''c5'', ''E'', 2), (''c4'', ''D'', 0)]
            = Inr r
         \<and> mset (ElectionResults_results r)
             = mset [\<lparr>CandidateResult_candidate_id = ''c4'',
                      CandidateResult_candidate_name = ''D'',
                      CandidateResult_vote_count = 0\<rparr>,
                     \<lparr>CandidateResult_candidate_id = ''c5'',
                      CandidateResult_candidate_name = ''E'',
                      CandidateResult_vote_count = 2\<rparr>]
         \<and> length (ElectionResults_results r) = 2
         \<and> ElectionResults_total_votes r = 2)"
proof -
  let ?answer = "[(''c5'', ''E'', 2 :: nat), (''c4'', ''D'', 0)]"
  have e1: "ElectionRepository_get_by_id counted_db ''e1''
              = Some (example_election ''e1'' ''active'')
            \<and> Election_status (example_election ''e1'' ''active'') \<noteq> ''closed''"
    by code_simp
  have e2: "ElectionRepository_get_by_id counted_db ''e2''
              = Some (example_election ''e2'' ''draft'')
            \<and> Election_status (example_election ''e2'' ''draft'') \<noteq> ''closed''"
    by code_simp
  have e3: "ElectionRepository_get_by_id counted_db ''e3''
              = Some (example_election ''e3'' ''closed'')
            \<and> Election_status (example_election ''e3'' ''closed'') = ''closed''
            \<and> distinct (map Candidate_id (candidates counted_db))
            \<and> VoteRepository_get_results counted_db ''e3'' ?answer"
    by code_simp
  have cs: "map (candidate_entry counted_db) (CandidateRepository_get_by_election counted_db ''e3'')
              = [\<lparr>CandidateResult_candidate_id = ''c4'',
                      CandidateResult_candidate_name = ''D'',
                      CandidateResult_vote_count = 0\<rparr>,
                     \<lparr>CandidateResult_candidate_id = ''c5'',
                      CandidateResult_candidate_name = ''E'',
                      CandidateResult_vote_count = 2\<rparr>]"
    by code_simp
  have n: "length (CandidateRepository_get_by_election counted_db ''e3'') = 2"
    "length (filter (\<lambda>v. Vote_election_id v = ''e3'') (votes counted_db)) = 2"
    by code_simp+
  from e1 tally_results[of counted_db "''e1''" "[]"]
  have a: "VoteService_get_results counted_db ''e1'' []
     = Inl (HTTPException 400 ''Results are only available after the election is closed'')"
    by blast
  from e2 tally_results[of counted_db "''e2''" "[]"]
  have b: "VoteService_get_results counted_db ''e2'' []
     = Inl (HTTPException 400 ''Results are only available after the election is closed'')"
    by blast
  from e3 tally_results[of counted_db "''e3''" ?answer]
  have "\<exists>r. VoteService_get_results counted_db ''e3'' ?answer = Inr r
         \<and> mset (ElectionResults_results r)
             = mset (map (candidate_entry counted_db)
                      (CandidateRepository_get_by_election counted_db ''e3''))
         \<and> length (ElectionResults_results r)
             = length (CandidateRepository_get_by_election counted_db ''e3'')
         \<and> ElectionResults_total_votes r
             = length (filter (\<lambda>v. Vote_election_id v = ''e3'') (votes counted_db))"
    by blast
  then have c: "\<exists>r. VoteService_get_results counted_db ''e3'' ?answer = Inr r
         \<and> mset (ElectionResults_results r)
             = mset [\<lparr>CandidateResult_candidate_id = ''c4'',
                      CandidateResult_candidate_name = ''D'',
                      CandidateResult_vote_count = 0\<rparr>,
                     \<lparr>CandidateResult_candidate_id = ''c5'',
                      CandidateResult_candidate_name = ''E'',
                      CandidateResult_vote_count = 2\<rparr>]
         \<and> length (ElectionResults_results r) = 2
         \<and> ElectionResults_total_votes r = 2"
    by (simp only: cs n)
  from a b e3 c show ?thesis by blast
qed

section \<open>Claims about the life cycle of an election\<close>

























section \<open>Claims about the order of the results\<close>

text \<open>The counts of an answer, read in order, are the candidates' counts sorted downwards.\<close>

lemma get_results_counts:
  assumes "distinct (map Candidate_id (candidates d))"
    and "VoteRepository_get_results d election_id results"
  shows "map (\<lambda>r. snd (snd r)) results
           = rev (sort (map (votes_for d) (CandidateRepository_get_by_election d election_id)))"
proof -
  let ?cs = "CandidateRepository_get_by_election d election_id"
  let ?counts = "map (\<lambda>r. snd (snd r)) results"
  from assms have "mset results
                 = mset (map (\<lambda>c. (Candidate_id c, Candidate_name c, votes_for d c)) ?cs)"
    by (simp add: VoteRepository_get_results_def result_groups_eq)
  then have "image_mset (\<lambda>r. snd (snd r)) (mset results)
               = image_mset (\<lambda>r. snd (snd r))
                   (mset (map (\<lambda>c. (Candidate_id c, Candidate_name c, votes_for d c)) ?cs))"
    by (rule arg_cong)
  then have "mset ?counts
               = mset (map (\<lambda>r. snd (snd r))
                   (map (\<lambda>c. (Candidate_id c, Candidate_name c, votes_for d c)) ?cs))"
    by (simp only: mset_map)
  then have m: "mset (rev ?counts) = mset (map (votes_for d) ?cs)"
    by (simp add: comp_def)
  from assms(2) have "sorted_wrt (\<lambda>r s. snd (snd s) \<le> snd (snd r)) results"
    by (simp add: VoteRepository_get_results_def)
  then have "sorted (rev ?counts)"
    by (simp add: sorted_wrt_rev sorted_wrt_map flip: rev_map)
  with m have "sort (map (votes_for d) ?cs) = rev ?counts"
    by (rule properties_for_sort)
  then show ?thesis by simp
qed

text \<open>
  C8, as the code has it. The entries of the response are in descending order of vote
  count: whatever answer the store gives to the query, the counts of the entries, read in
  order, are the vote counts of the election's candidates sorted downwards. The query has
  no second sort key, and nothing is promised about the order of candidates with equal
  counts.
\<close>

theorem results_descending:
  "(\<forall>e. ElectionRepository_get_by_id d election_id = Some e
        \<and> Election_status e = ''closed''
        \<and> VoteRepository_get_results d election_id results \<longrightarrow>
      (\<exists>r. VoteService_get_results d election_id results = Inr r
         \<and> sorted_wrt (\<lambda>a b. CandidateResult_vote_count b \<le> CandidateResult_vote_count a)
             (ElectionResults_results r)))
   \<and> (\<forall>e. ElectionRepository_get_by_id d election_id = Some e
        \<and> Election_status e = ''closed''
        \<and> distinct (map Candidate_id (candidates d))
        \<and> VoteRepository_get_results d election_id results \<longrightarrow>
      (\<exists>r. VoteService_get_results d election_id results = Inr r
         \<and> map CandidateResult_vote_count (ElectionResults_results r)
             = rev (sort (map (votes_for d)
                           (CandidateRepository_get_by_election d election_id)))))"
proof (intro conjI allI impI)
  fix e
  assume h: "ElectionRepository_get_by_id d election_id = Some e
        \<and> Election_status e = ''closed''
        \<and> VoteRepository_get_results d election_id results"
  then have "sorted_wrt (\<lambda>r s. snd (snd s) \<le> snd (snd r)) results"
    by (simp add: VoteRepository_get_results_def)
  then have "sorted_wrt (\<lambda>a b. CandidateResult_vote_count b \<le> CandidateResult_vote_count a)
               (map (\<lambda>r. \<lparr>CandidateResult_candidate_id = fst r,
                         CandidateResult_candidate_name = fst (snd r),
                         CandidateResult_vote_count = snd (snd r)\<rparr>) results)"
    by (simp add: sorted_wrt_map)
  with h show "\<exists>r. VoteService_get_results d election_id results = Inr r
         \<and> sorted_wrt (\<lambda>a b. CandidateResult_vote_count b \<le> CandidateResult_vote_count a)
             (ElectionResults_results r)"
    by (simp add: get_results_closed)
next
  fix e
  assume h: "ElectionRepository_get_by_id d election_id = Some e
        \<and> Election_status e = ''closed''
        \<and> distinct (map Candidate_id (candidates d))
        \<and> VoteRepository_get_results d election_id results"
  then have "map (\<lambda>r. snd (snd r)) results
           = rev (sort (map (votes_for d) (CandidateRepository_get_by_election d election_id)))"
    by (simp add: get_results_counts)
  with h show "\<exists>r. VoteService_get_results d election_id results = Inr r
         \<and> map CandidateResult_vote_count (ElectionResults_results r)
             = rev (sort (map (votes_for d)
                           (CandidateRepository_get_by_election d election_id)))"
    by (simp add: get_results_closed comp_def)
qed

theorem results_descending_witness:
  "VoteRepository_get_results counted_db ''e3'' [(''c5'', ''E'', 2), (''c4'', ''D'', 0)]
   \<and> distinct (map Candidate_id (candidates counted_db))
   \<and> (\<exists>r. VoteService_get_results counted_db ''e3'' [(''c5'', ''E'', 2), (''c4'', ''D'', 0)]
            = Inr r
         \<and> sorted_wrt (\<lambda>a b. CandidateResult_vote_count b \<le> CandidateResult_vote_count a)
             (ElectionResults_results r))
   \<and> (\<exists>r. VoteService_get_results counted_db ''e3'' [(''c5'', ''E'', 2), (''c4'', ''D'', 0)]
            = Inr r
         \<and> map CandidateResult_vote_count (ElectionResults_results r) = [2, 0])"
proof -
  have e3: "ElectionRepository_get_by_id counted_db ''e3''
              = Some (example_election ''e3'' ''closed'')
            \<and> Election_status (example_election ''e3'' ''closed'') = ''closed''
            \<and> distinct (map Candidate_id (candidates counted_db))
            \<and> VoteRepository_get_results counted_db ''e3''
                 [(''c5'', ''E'', 2), (''c4'', ''D'', 0)]"
    by code_simp
  have counts: "rev (sort (map (votes_for counted_db)
                   (CandidateRepository_get_by_election counted_db ''e3''))) = [2, 0]"
    by code_simp
  note T = results_descending[of counted_db "''e3''" "[(''c5'', ''E'', 2), (''c4'', ''D'', 0)]"]
  from e3 T
  have a: "\<exists>r. VoteService_get_results counted_db ''e3'' [(''c5'', ''E'', 2), (''c4'', ''D'', 0)]
            = Inr r
         \<and> sorted_wrt (\<lambda>a b. CandidateResult_vote_count b \<le> CandidateResult_vote_count a)
             (ElectionResults_results r)"
    by blast
  from e3 T
  have "\<exists>r. VoteService_get_results counted_db ''e3'' [(''c5'', ''E'', 2), (''c4'', ''D'', 0)]
            = Inr r
         \<and> map CandidateResult_vote_count (ElectionResults_results r)
             = rev (sort (map (votes_for counted_db)
                           (CandidateRepository_get_by_election counted_db ''e3'')))"
    by blast
  then have b: "\<exists>r. VoteService_get_results counted_db ''e3''
              [(''c5'', ''E'', 2), (''c4'', ''D'', 0)] = Inr r
         \<and> map CandidateResult_vote_count (ElectionResults_results r) = [2, 0]"
    by (simp only: counts)
  from e3 a b show ?thesis by blast
qed

text \<open>
  C8 as the claim states it orders candidates with equal counts by creation. It fails on
  a store in which the closed election \<open>e3\<close> has no votes and its candidate \<open>c5\<close>
  was created before \<open>c4\<close>: the answer that lists the tied candidates by their ids,
  \<open>c4\<close> first, is one the query admits, and it puts the later candidate first.
\<close>

theorem results_tie_order_counterexample:
  "ElectionRepository_get_by_id tie_db ''e3'' = Some (example_election ''e3'' ''closed'')
   \<and> VoteRepository_get_results tie_db ''e3'' [(''c4'', ''D'', 0), (''c5'', ''E'', 0)]
   \<and> VoteService_get_results tie_db ''e3'' [(''c4'', ''D'', 0), (''c5'', ''E'', 0)]
       = Inr \<lparr>ElectionResults_election_id = ''e3'', ElectionResults_title = ''Board'',
              ElectionResults_status = ''closed'', ElectionResults_total_votes = 0,
              ElectionResults_results =
                [\<lparr>CandidateResult_candidate_id = ''c4'', CandidateResult_candidate_name = ''D'',
                  CandidateResult_vote_count = 0\<rparr>,
                 \<lparr>CandidateResult_candidate_id = ''c5'', CandidateResult_candidate_name = ''E'',
                  CandidateResult_vote_count = 0\<rparr>]\<rparr>
   \<and> CandidateRepository_get_by_id tie_db ''c5''
       = Some (example_candidate ''c5'' ''e3'' ''E'' 63)
   \<and> CandidateRepository_get_by_id tie_db ''c4''
       = Some (example_candidate ''c4'' ''e3'' ''D'' 64)
   \<and> \<not> ties_by_creation tie_db [(''c4'', ''D'', 0), (''c5'', ''E'', 0)]"
  by code_simp

end
